theory Spec2Isabelle
  imports Main "HOL-Library.Code_Target_Nat"
begin

section \<open>JavaScript strings\<close>

text \<open>
  A JavaScript string is the sequence of its UTF-16 code units. This development covers the
  code units below 256, so a string is a \<^typ>\<open>string\<close> and a character a \<^typ>\<open>char\<close>.
  Numbers that the code only counts with (lengths, line numbers) are \<^typ>\<open>nat\<close>.
\<close>

text \<open>\<^verbatim>\<open>s.startsWith(p)\<close>\<close>

fun startsWith :: "string \<Rightarrow> string \<Rightarrow> bool" where
  "startsWith s [] = True"
| "startsWith [] (p # ps) = False"
| "startsWith (c # cs) (p # ps) = (c = p \<and> startsWith cs ps)"

text \<open>\<^verbatim>\<open>s.includes(t)\<close>: \<open>t\<close> occurs in \<open>s\<close> as a contiguous run.\<close>

fun str_includes :: "string \<Rightarrow> string \<Rightarrow> bool" where
  "str_includes [] t = (t = [])"
| "str_includes (c # cs) t = (startsWith (c # cs) t \<or> str_includes cs t)"

text \<open>\<^verbatim>\<open>s.toLowerCase()\<close> on the code units below 256: A-Z and the Latin-1 capitals.\<close>

definition lower_char :: "char \<Rightarrow> char" where
  "lower_char c =
     (let n = (of_char c :: nat)
      in if (65 \<le> n \<and> n \<le> 90) \<or> (192 \<le> n \<and> n \<le> 222 \<and> n \<noteq> 215)
         then char_of (n + 32) else c)"

definition toLowerCase :: "string \<Rightarrow> string" where
  "toLowerCase s = map lower_char s"

text \<open>
  White space and line terminators as \<^verbatim>\<open>trim()\<close> and the regular expression class
  \<^verbatim>\<open>\s\<close> see them: TAB, LF, VT, FF, CR, SP and NBSP.
\<close>

definition is_space :: "char \<Rightarrow> bool" where
  "is_space c = ((of_char c :: nat) \<in> {9, 10, 11, 12, 13, 32, 160})"

definition trim :: "string \<Rightarrow> string" where
  "trim s = rev (dropWhile is_space (rev (dropWhile is_space s)))"

text \<open>\<^verbatim>\<open>s.split(sep)\<close> for a one-character separator: always at least one piece.\<close>

fun split_on :: "char \<Rightarrow> string \<Rightarrow> string list" where
  "split_on sep [] = [[]]"
| "split_on sep (c # cs) =
     (if c = sep then [] # split_on sep cs
      else (case split_on sep cs of
              [] \<Rightarrow> [[c]]
            | l # ls \<Rightarrow> (c # l) # ls))"

text \<open>\<^verbatim>\<open>s.split('\n')\<close>\<close>

definition split_lines :: "string \<Rightarrow> string list" where
  "split_lines s = split_on (CHR 0x0A) s"

text \<open>A non-negative integer in a template string: its decimal digits.\<close>

fun show_nat :: "nat \<Rightarrow> string" where
  "show_nat n =
     (if n < 10 then [char_of (48 + n)]
      else show_nat (n div 10) @ [char_of (48 + n mod 10)])"

section \<open>Data model\<close>

text \<open>Severity of a dependency record: \<^verbatim>\<open>'low' | 'medium' | 'high' | 'critical'\<close>.\<close>

datatype severity = Low | Medium | High | Critical

text \<open>Severity of a static finding: \<^verbatim>\<open>'error' | 'warning' | 'info'\<close>.\<close>

datatype finding_severity = Error | Warning | Info

text \<open>\<^verbatim>\<open>AISummary['riskLevel']\<close>\<close>

datatype risk = LowRisk | MediumRisk | HighRisk | CriticalRisk

text \<open>
  The lookup tables of the dependency analyzer are object literals, so indexing one by a
  name that every object inherits (\<^verbatim>\<open>constructor\<close>, \<^verbatim>\<open>toString\<close>, \<^verbatim>\<open>__proto__\<close>, ...) yields
  a member of \<^verbatim>\<open>Object.prototype\<close>. The declared types do not say so, but at run time the
  \<^verbatim>\<open>latest\<close> field of an outdated record is then a built-in function or the prototype
  object instead of a string, and the \<^verbatim>\<open>vulnerability\<close> and \<^verbatim>\<open>severity\<close> fields of a
  vulnerable record, read off such a member, are undefined.
\<close>

datatype js_value = Str string | NativeFunction string | ObjectPrototype

text \<open>A value in a template string.\<close>

definition js_to_string :: "js_value \<Rightarrow> string" where
  "js_to_string v =
     (case v of
        Str s \<Rightarrow> s
      | NativeFunction n \<Rightarrow> ''function '' @ n @ ''() { [native code] }''
      | ObjectPrototype \<Rightarrow> ''[object Object]'')"

definition string_or_undefined :: "string option \<Rightarrow> string" where
  "string_or_undefined v = (case v of None \<Rightarrow> ''undefined'' | Some s \<Rightarrow> s)"

record OutdatedDependency =
  o_name :: string
  o_current :: string
  o_latest :: js_value
  o_severity :: severity

record VulnerableDependency =
  v_name :: string
  v_version :: string
  v_vulnerability :: "string option"
  v_severity :: "severity option"

record DependencyAnalysis =
  total :: nat
  outdated :: "OutdatedDependency list"
  vulnerable :: "VulnerableDependency list"

text \<open>An element of \<^verbatim>\<open>StaticAnalysisResult['errors']\<close>; \<^verbatim>\<open>rule\<close> is optional.\<close>

record StaticFinding =
  f_file :: string
  f_line :: nat
  f_message :: string
  f_severity :: finding_severity
  f_rule :: "string option"

record StaticSummary =
  totalFiles :: nat
  totalErrors :: nat
  totalWarnings :: nat

record StaticAnalysisResult =
  errors :: "StaticFinding list"
  summary :: StaticSummary

record AISummary =
  riskLevel :: risk
  summary_text :: string
  recommendations :: "string list"
  priorityFixes :: "string list"

section \<open>Errors\<close>

text \<open>
  A thrown exception or a rejected promise is a value: the error's class with its message.
\<close>

datatype js_error = TypeError string | SyntaxError string | SystemError string | GitError string

text \<open>Sequencing of calls that may throw: the first error ends the computation.\<close>

definition bind_sum :: "js_error + 'a \<Rightarrow> ('a \<Rightarrow> js_error + 'b) \<Rightarrow> js_error + 'b" where
  "bind_sum m f = (case m of Inl e \<Rightarrow> Inl e | Inr x \<Rightarrow> f x)"

section \<open>Risk summarizer: the fallback path (ai-mock.ts)\<close>

definition risk_string :: "risk \<Rightarrow> string" where
  "risk_string r =
     (case r of LowRisk \<Rightarrow> ''low'' | MediumRisk \<Rightarrow> ''medium''
      | HighRisk \<Rightarrow> ''high'' | CriticalRisk \<Rightarrow> ''critical'')"

text \<open>\<^verbatim>\<open>e.rule?.includes(t)\<close>: undefined (falsy) when the finding has no rule.\<close>

definition rule_includes :: "StaticFinding \<Rightarrow> string \<Rightarrow> bool" where
  "rule_includes e t = (case f_rule e of None \<Rightarrow> False | Some r \<Rightarrow> str_includes r t)"

definition generateSummaryText ::
  "DependencyAnalysis \<Rightarrow> StaticAnalysisResult \<Rightarrow> risk \<Rightarrow> string" where
  "generateSummaryText dependencies staticAnalysis riskLevel' =
     (let totalVulns = length (vulnerable dependencies);
          totalOutdated = length (outdated dependencies);
          totalErrors' = totalErrors (summary staticAnalysis);
          totalWarnings' = totalWarnings (summary staticAnalysis);
          s0 = ''This repository has been classified as '' @ risk_string riskLevel' @ '' risk. '';
          s1 = (if totalVulns > 0
                then s0 @ ''Found '' @ show_nat totalVulns @ '' vulnerable ''
                        @ (if totalVulns = 1 then ''dependency'' else ''dependencies'')
                        @ '' with known security issues. ''
                else s0);
          s2 = (if totalOutdated > 0
                then s1 @ show_nat totalOutdated @ '' ''
                        @ (if totalOutdated = 1 then ''dependency is'' else ''dependencies are'')
                        @ '' outdated. ''
                else s1);
          s3 = (if totalErrors' > 0
                then (let t = s2 @ ''Static analysis detected '' @ show_nat totalErrors'
                                @ '' critical ''
                                @ (if totalErrors' = 1 then ''issue'' else ''issues'') @ '' ''
                      in if totalWarnings' > 0
                         then t @ ''and '' @ show_nat totalWarnings' @ '' ''
                                @ (if totalWarnings' = 1 then ''warning'' else ''warnings'')
                                @ ''. ''
                         else t @ ''. '')
                else if totalWarnings' > 0
                then s2 @ ''Static analysis found '' @ show_nat totalWarnings' @ '' ''
                        @ (if totalWarnings' = 1 then ''warning'' else ''warnings'') @ ''. ''
                else s2)
      in if riskLevel' = CriticalRisk
         then s3 @ ''Immediate action is required to address critical security vulnerabilities.''
         else if riskLevel' = HighRisk
         then s3 @ ''High priority issues should be addressed as soon as possible.''
         else if riskLevel' = MediumRisk
         then s3 @ ''Several issues should be addressed to improve security and code quality.''
         else s3 @ ''The repository appears to be in good condition with only minor issues.'')"

definition generateRecommendations ::
  "DependencyAnalysis \<Rightarrow> StaticAnalysisResult \<Rightarrow> string list" where
  "generateRecommendations dependencies staticAnalysis =
     (let r1 = (if length (vulnerable dependencies) > 0
                then [''Update vulnerable dependencies to secure versions immediately'',
                      ''Set up automated dependency scanning in your CI/CD pipeline'']
                else []);
          r2 = (if length (outdated dependencies) > 0
                then r1 @ [''Update outdated dependencies to latest stable versions'',
                           ''Consider using dependency management tools like Dependabot or Renovate'']
                else r1);
          securityErrors = filter (\<lambda>e. rule_includes e ''security''
                                      \<or> str_includes (toLowerCase (f_message e)) ''security'')
                             (errors staticAnalysis);
          r3 = (if length securityErrors > 0
                then r2 @ [''Fix security vulnerabilities found in static analysis'',
                           ''Implement input validation and sanitization'',
                           ''Add security linting rules to prevent future issues'']
                else r2);
          performanceIssues = filter (\<lambda>e. rule_includes e ''performance''
                                         \<or> str_includes (toLowerCase (f_message e)) ''sync'')
                                (errors staticAnalysis);
          r4 = (if length performanceIssues > 0
                then r3 @ [''Replace synchronous operations with asynchronous alternatives'',
                           ''Implement proper error handling for async operations'']
                else r3);
          r5 = (if totalWarnings (summary staticAnalysis) > 5
                then r4 @ [''Set up code linting and formatting tools (ESLint, Prettier, etc.)'',
                           ''Establish code review processes to catch issues early'']
                else r4);
          r6 = (if length r5 = 0
                then r5 @ [''Continue following security best practices'',
                           ''Keep dependencies updated regularly'',
                           ''Maintain good code quality standards'']
                else r5)
      in take 6 r6)"

definition generatePriorityFixes ::
  "DependencyAnalysis \<Rightarrow> StaticAnalysisResult \<Rightarrow> string list" where
  "generatePriorityFixes dependencies staticAnalysis =
     (let criticalVulns = filter (\<lambda>v. v_severity v = Some Critical) (vulnerable dependencies);
          p1 = map (\<lambda>vuln. ''Update '' @ v_name vuln @ '' to fix: ''
                             @ string_or_undefined (v_vulnerability vuln))
                 criticalVulns;
          highVulns = filter (\<lambda>v. v_severity v = Some High) (vulnerable dependencies);
          p2 = p1 @ map (\<lambda>vuln. ''Update '' @ v_name vuln @ '' to fix: ''
                                  @ string_or_undefined (v_vulnerability vuln))
                      highVulns;
          criticalErrors = filter (\<lambda>e. f_severity e = Error \<and>
                                      (rule_includes e ''security''
                                       \<or> str_includes (toLowerCase (f_message e)) ''injection''
                                       \<or> str_includes (toLowerCase (f_message e)) ''eval''))
                             (errors staticAnalysis);
          p3 = p2 @ map (\<lambda>e. ''Fix '' @ toLowerCase (f_message e) @ '' in '' @ f_file e
                              @ '':'' @ show_nat (f_line e))
                      criticalErrors;
          highOutdated = filter (\<lambda>d. o_severity d = High) (outdated dependencies);
          p4 = p3 @ map (\<lambda>dep. ''Update '' @ o_name dep @ '' from '' @ o_current dep
                                @ '' to '' @ js_to_string (o_latest dep))
                      highOutdated
      in take 5 p4)"

definition generateMockSummary :: "DependencyAnalysis \<Rightarrow> StaticAnalysisResult \<Rightarrow> AISummary" where
  "generateMockSummary dependencies staticAnalysis =
     (let criticalIssues = length (filter (\<lambda>v. v_severity v = Some Critical) (vulnerable dependencies));
          highIssues = length (filter (\<lambda>v. v_severity v = Some High) (vulnerable dependencies))
                       + length (filter (\<lambda>e. f_severity e = Error) (errors staticAnalysis));
          mediumIssues = length (filter (\<lambda>d. o_severity d = Medium) (outdated dependencies))
                         + length (filter (\<lambda>e. f_severity e = Warning) (errors staticAnalysis));
          riskLevel' = (if criticalIssues > 0 then CriticalRisk
                        else if highIssues > 2 then HighRisk
                        else if highIssues > 0 \<or> mediumIssues > 3 then MediumRisk
                        else LowRisk)
      in \<lparr> riskLevel = riskLevel',
           summary_text = generateSummaryText dependencies staticAnalysis riskLevel',
           recommendations = generateRecommendations dependencies staticAnalysis,
           priorityFixes = generatePriorityFixes dependencies staticAnalysis \<rparr>)"

section \<open>The repository on disk\<close>

text \<open>
  A checked-out repository is a list of directory entries, in the order \<^verbatim>\<open>fs.readdir\<close>
  lists them. An entry is a file with its name and its content read as text, or a
  directory with its name and its entries, or one of three entries on which a file-system
  call rejects: a name on which \<^verbatim>\<open>fs.stat\<close> fails (a symbolic link whose target is gone),
  a file that \<^verbatim>\<open>fs.readFile\<close> cannot read, and a directory that \<^verbatim>\<open>fs.readdir\<close> cannot
  list.
\<close>

datatype entry =
  File string string | Dir string "entry list"
  | Dangling string | Unreadable string | Locked string

fun entry_name :: "entry \<Rightarrow> string" where
  "entry_name (File n c) = n"
| "entry_name (Dir n es) = n"
| "entry_name (Dangling n) = n"
| "entry_name (Unreadable n) = n"
| "entry_name (Locked n) = n"

text \<open>
  \<^verbatim>\<open>fs.pathExists(path.join(repoPath, name))\<close>: whether the path can be accessed, which a
  link without a target cannot.
\<close>

definition pathExists :: "entry list \<Rightarrow> string \<Rightarrow> bool" where
  "pathExists root n =
     (case find (\<lambda>e. entry_name e = n) root of
        None \<Rightarrow> False
      | Some (Dangling _) \<Rightarrow> False
      | Some _ \<Rightarrow> True)"

text \<open>\<^verbatim>\<open>fs.readFile(path.join(repoPath, name), 'utf-8')\<close>\<close>

definition readFile :: "entry list \<Rightarrow> string \<Rightarrow> js_error + string" where
  "readFile root n =
     (case find (\<lambda>e. entry_name e = n) root of
        None \<Rightarrow> Inl (SystemError ''ENOENT'')
      | Some (File _ c) \<Rightarrow> Inr c
      | Some (Dir _ _) \<Rightarrow> Inl (SystemError ''EISDIR'')
      | Some (Dangling _) \<Rightarrow> Inl (SystemError ''ENOENT'')
      | Some (Unreadable _) \<Rightarrow> Inl (SystemError ''EACCES'')
      | Some (Locked _) \<Rightarrow> Inl (SystemError ''EISDIR''))"

text \<open>
  \<^verbatim>\<open>path.extname\<close> of a path whose last component is \<open>base\<close>: the text from the last
  dot on, and empty when there is no dot, when the only dot starts the name, or for \<open>..\<close>.
\<close>

definition extname :: "string \<Rightarrow> string" where
  "extname base =
     (if CHR ''.'' \<notin> set base then []
      else let ext = rev (takeWhile (\<lambda>c. c \<noteq> CHR ''.'') (rev base));
               stem = rev (tl (dropWhile (\<lambda>c. c \<noteq> CHR ''.'') (rev base)))
           in if stem = [] \<or> base = ''..'' then [] else CHR ''.'' # ext)"

section \<open>The semver library\<close>

text \<open>
  The npm package \<^verbatim>\<open>semver\<close> is a dependency of the repository, not part of it. Its strict
  parser and its precedence order are modelled here after the library: an optional
  \<^verbatim>\<open>v\<close>, three numeric identifiers without leading zeros, an optional pre-release after a
  hyphen, optional build metadata after a plus sign. A version that does not parse
  makes every function of the library throw a TypeError.
\<close>

datatype pre_id = NumId nat | StrId string

record SemVer =
  major :: nat
  minor :: nat
  patch :: nat
  prerelease :: "pre_id list"

definition is_digit :: "char \<Rightarrow> bool" where
  "is_digit c = (let n = (of_char c :: nat) in 48 \<le> n \<and> n \<le> 57)"

definition is_id_char :: "char \<Rightarrow> bool" where
  "is_id_char c =
     (let n = (of_char c :: nat)
      in (48 \<le> n \<and> n \<le> 57) \<or> (65 \<le> n \<and> n \<le> 90) \<or> (97 \<le> n \<and> n \<le> 122) \<or> n = 45)"

definition digits_value :: "string \<Rightarrow> nat" where
  "digits_value s = foldl (\<lambda>acc c. 10 * acc + (of_char c - 48)) 0 s"

definition numeric_identifier :: "string \<Rightarrow> bool" where
  "numeric_identifier s = (s \<noteq> [] \<and> list_all is_digit s \<and> (s = ''0'' \<or> hd s \<noteq> CHR ''0''))"

definition prerelease_identifier :: "string \<Rightarrow> bool" where
  "prerelease_identifier s =
     (s \<noteq> [] \<and> list_all is_id_char s
      \<and> (if list_all is_digit s then numeric_identifier s else True))"

definition build_identifier :: "string \<Rightarrow> bool" where
  "build_identifier s = (s \<noteq> [] \<and> list_all is_id_char s)"

definition MAX_SAFE_INTEGER :: nat where
  "MAX_SAFE_INTEGER = 9007199254740991"

text \<open>What follows the three numbers: nothing, a pre-release, build metadata, or both.\<close>

definition semver_tail :: "string \<Rightarrow> pre_id list option" where
  "semver_tail rest =
     (if rest = [] then Some []
      else if hd rest = CHR ''-''
      then (let pr = takeWhile (\<lambda>c. c \<noteq> CHR ''+'') (tl rest);
                b = dropWhile (\<lambda>c. c \<noteq> CHR ''+'') (tl rest)
            in if list_all prerelease_identifier (split_on (CHR ''.'') pr)
                  \<and> (b = [] \<or> list_all build_identifier (split_on (CHR ''.'') (tl b)))
               then Some (map (\<lambda>i. if list_all is_digit i then NumId (digits_value i) else StrId i)
                            (split_on (CHR ''.'') pr))
               else None)
      else if list_all build_identifier (split_on (CHR ''.'') (tl rest)) then Some []
      else None)"

definition semver_parse :: "string \<Rightarrow> js_error + SemVer" where
  "semver_parse version =
     (if length version > 256 then Inl (TypeError ''version is longer than 256 characters'')
      else
        (let s = trim version;
             s1 = (if startsWith s ''v'' then tl s else s);
             main = takeWhile (\<lambda>c. c \<noteq> CHR ''-'' \<and> c \<noteq> CHR ''+'') s1;
             rest = dropWhile (\<lambda>c. c \<noteq> CHR ''-'' \<and> c \<noteq> CHR ''+'') s1;
             nums = split_on (CHR ''.'') main
         in if length nums = 3 \<and> list_all numeric_identifier nums
            then (case semver_tail rest of
                    None \<Rightarrow> Inl (TypeError (''Invalid Version: '' @ version))
                  | Some pre \<Rightarrow>
                      if list_ex (\<lambda>n. digits_value n > MAX_SAFE_INTEGER) nums
                      then Inl (TypeError ''Invalid version number'')
                      else Inr \<lparr> major = digits_value (nums ! 0),
                                 minor = digits_value (nums ! 1),
                                 patch = digits_value (nums ! 2),
                                 prerelease = pre \<rparr>)
            else Inl (TypeError (''Invalid Version: '' @ version))))"

text \<open>Strings compared by code units, as \<^verbatim>\<open>a < b\<close> does.\<close>

fun string_less :: "string \<Rightarrow> string \<Rightarrow> bool" where
  "string_less [] [] = False"
| "string_less [] (b # bs) = True"
| "string_less (a # as) [] = False"
| "string_less (a # as) (b # bs) =
     ((of_char a :: nat) < of_char b \<or> (a = b \<and> string_less as bs))"

definition compareIdentifiers :: "pre_id \<Rightarrow> pre_id \<Rightarrow> int" where
  "compareIdentifiers a b =
     (case (a, b) of
        (NumId x, NumId y) \<Rightarrow> (if x = y then 0 else if x < y then - 1 else 1)
      | (NumId x, StrId y) \<Rightarrow> - 1
      | (StrId x, NumId y) \<Rightarrow> 1
      | (StrId x, StrId y) \<Rightarrow> (if x = y then 0 else if string_less x y then - 1 else 1))"

fun comparePreLoop :: "pre_id list \<Rightarrow> pre_id list \<Rightarrow> int" where
  "comparePreLoop [] [] = 0"
| "comparePreLoop (a # as) [] = 1"
| "comparePreLoop [] (b # bs) = - 1"
| "comparePreLoop (a # as) (b # bs) =
     (if a = b then comparePreLoop as bs else compareIdentifiers a b)"

definition comparePre :: "SemVer \<Rightarrow> SemVer \<Rightarrow> int" where
  "comparePre x y =
     (if prerelease x \<noteq> [] \<and> prerelease y = [] then - 1
      else if prerelease x = [] \<and> prerelease y \<noteq> [] then 1
      else if prerelease x = [] \<and> prerelease y = [] then 0
      else comparePreLoop (prerelease x) (prerelease y))"

definition compareMain :: "SemVer \<Rightarrow> SemVer \<Rightarrow> int" where
  "compareMain x y =
     (if major x \<noteq> major y then (if major x < major y then - 1 else 1)
      else if minor x \<noteq> minor y then (if minor x < minor y then - 1 else 1)
      else if patch x \<noteq> patch y then (if patch x < patch y then - 1 else 1)
      else 0)"

definition semver_compare :: "SemVer \<Rightarrow> SemVer \<Rightarrow> int" where
  "semver_compare x y = (if compareMain x y \<noteq> 0 then compareMain x y else comparePre x y)"

text \<open>\<^verbatim>\<open>semver.lt(a, b)\<close>, \<^verbatim>\<open>semver.major(a)\<close>, \<^verbatim>\<open>semver.minor(a)\<close>\<close>

definition semver_lt :: "string \<Rightarrow> string \<Rightarrow> js_error + bool" where
  "semver_lt a b =
     bind_sum (semver_parse a) (\<lambda>x.
     bind_sum (semver_parse b) (\<lambda>y. Inr (semver_compare x y < 0)))"

definition semver_major :: "string \<Rightarrow> js_error + nat" where
  "semver_major a = bind_sum (semver_parse a) (\<lambda>x. Inr (major x))"

definition semver_minor :: "string \<Rightarrow> js_error + nat" where
  "semver_minor a = bind_sum (semver_parse a) (\<lambda>x. Inr (minor x))"

section \<open>Static pattern analyzer (static-analyzer.ts)\<close>

text \<open>
  \<^verbatim>\<open>findFiles\<close>: the files below a directory whose lower-cased extension is among
  \<open>extensions\<close>, in discovery order, each as its path relative to the root with what
  reading it will give. Every name listed is passed to \<^verbatim>\<open>fs.stat\<close> first, so a name on
  which that fails ends the walk with the error, wherever it is; the five named
  directories are not entered, and a directory that cannot be listed ends the walk when
  it is entered.
\<close>

fun findFiles_entry ::
    "string list \<Rightarrow> string \<Rightarrow> entry \<Rightarrow> js_error + (string \<times> (js_error + string)) list"
  and findFiles_items ::
    "string list \<Rightarrow> string \<Rightarrow> entry list \<Rightarrow> js_error + (string \<times> (js_error + string)) list"
where
  "findFiles_entry extensions prefix (File n c) =
     Inr (if toLowerCase (extname n) \<in> set extensions then [(prefix @ n, Inr c)] else [])"
| "findFiles_entry extensions prefix (Unreadable n) =
     Inr (if toLowerCase (extname n) \<in> set extensions
          then [(prefix @ n, Inl (SystemError ''EACCES''))] else [])"
| "findFiles_entry extensions prefix (Dangling n) = Inl (SystemError ''ENOENT'')"
| "findFiles_entry extensions prefix (Locked n) =
     (if n \<in> set [''node_modules'', ''.git'', ''dist'', ''build'', ''__pycache__''] then Inr []
      else Inl (SystemError ''EACCES''))"
| "findFiles_entry extensions prefix (Dir n es) =
     (if n \<in> set [''node_modules'', ''.git'', ''dist'', ''build'', ''__pycache__''] then Inr []
      else findFiles_items extensions (prefix @ n @ ''/'') es)"
| "findFiles_items extensions prefix [] = Inr []"
| "findFiles_items extensions prefix (e # es) =
     bind_sum (findFiles_entry extensions prefix e) (\<lambda>found.
     bind_sum (findFiles_items extensions prefix es) (\<lambda>more. Inr (found @ more)))"

definition findFiles ::
  "entry list \<Rightarrow> string list \<Rightarrow> js_error + (string \<times> (js_error + string)) list" where
  "findFiles root extensions = findFiles_items extensions [] root"

text \<open>The regular expression class \<^verbatim>\<open>\w\<close>.\<close>

definition is_word :: "char \<Rightarrow> bool" where
  "is_word c =
     (let n = (of_char c :: nat)
      in (48 \<le> n \<and> n \<le> 57) \<or> (65 \<le> n \<and> n \<le> 90) \<or> (97 \<le> n \<and> n \<le> 122) \<or> n = 95)"

text \<open>
  \<^verbatim>\<open>/(?:var|let|const)\s+(\w+)/\<close> anchored at the start of \<open>s\<close>: the keyword, at least one
  white-space character, then the longest run of word characters, which is the captured
  group.
\<close>

definition keyword_then_name :: "string \<Rightarrow> string \<Rightarrow> string option" where
  "keyword_then_name kw s =
     (if startsWith s kw
      then (let rest = drop (length kw) s;
                name = takeWhile is_word (dropWhile is_space rest)
            in if takeWhile is_space rest \<noteq> [] \<and> name \<noteq> [] then Some name else None)
      else None)"

definition var_match_at :: "string \<Rightarrow> string option" where
  "var_match_at s =
     (case keyword_then_name ''var'' s of Some w \<Rightarrow> Some w
      | None \<Rightarrow> (case keyword_then_name ''let'' s of Some w \<Rightarrow> Some w
                 | None \<Rightarrow> keyword_then_name ''const'' s))"

text \<open>\<^verbatim>\<open>s.match(/(?:var|let|const)\s+(\w+)/)\<close>: group 1 of the leftmost match.\<close>

fun var_match :: "string \<Rightarrow> string option" where
  "var_match [] = None"
| "var_match (c # cs) =
     (case var_match_at (c # cs) of Some w \<Rightarrow> Some w | None \<Rightarrow> var_match cs)"

definition js_line_findings :: "string \<Rightarrow> string \<Rightarrow> nat \<Rightarrow> string \<Rightarrow> StaticFinding list" where
  "js_line_findings relativePath content index line =
     (let lineNumber = index + 1;
          trimmedLine = trim line
      in (if str_includes trimmedLine ''query'' \<and> str_includes trimmedLine ''+''
              \<and> str_includes trimmedLine ''SELECT''
          then [\<lparr> f_file = relativePath, f_line = lineNumber,
                  f_message = ''Potential SQL injection vulnerability'',
                  f_severity = Error, f_rule = Some ''security/detect-sql-injection'' \<rparr>]
          else [])
       @ (if str_includes trimmedLine ''password''
              \<and> (str_includes trimmedLine ''='' \<or> str_includes trimmedLine '':'')
              \<and> (str_includes trimmedLine [CHR 0x22] \<or> str_includes trimmedLine [CHR 0x27])
          then [\<lparr> f_file = relativePath, f_line = lineNumber,
                  f_message = ''Hardcoded credentials detected'',
                  f_severity = Error, f_rule = Some ''security/detect-hardcoded-credentials'' \<rparr>]
          else [])
       @ (if str_includes trimmedLine ''eval(''
          then [\<lparr> f_file = relativePath, f_line = lineNumber,
                  f_message = ''Use of eval() is dangerous and should be avoided'',
                  f_severity = Error, f_rule = Some ''security/detect-eval-with-expression'' \<rparr>]
          else [])
       @ (if str_includes trimmedLine ''Sync('' \<and> \<not> str_includes trimmedLine ''//''
          then [\<lparr> f_file = relativePath, f_line = lineNumber,
                  f_message = ''Synchronous function in async context may block event loop'',
                  f_severity = Warning, f_rule = Some ''performance/no-sync-in-async'' \<rparr>]
          else [])
       @ (if str_includes trimmedLine ''console.log('' \<and> \<not> str_includes trimmedLine ''//''
          then [\<lparr> f_file = relativePath, f_line = lineNumber,
                  f_message = ''Console.log should be removed in production code'',
                  f_severity = Warning, f_rule = Some ''no-console'' \<rparr>]
          else [])
       @ (if str_includes trimmedLine ''JSON.parse('' \<and> \<not> str_includes content ''try''
              \<and> \<not> str_includes content ''catch''
          then [\<lparr> f_file = relativePath, f_line = lineNumber,
                  f_message = ''JSON.parse should be wrapped in try-catch'',
                  f_severity = Warning, f_rule = Some ''error-handling/json-parse'' \<rparr>]
          else [])
       @ (case var_match trimmedLine of
            None \<Rightarrow> []
          | Some v \<Rightarrow>
              if \<not> str_includes content (v @ ''.'') \<and> \<not> str_includes content (v @ ''('')
              then [\<lparr> f_file = relativePath, f_line = lineNumber,
                      f_message = ''Variable '' @ [CHR 0x27] @ v @ [CHR 0x27]
                                  @ '' is declared but never used'',
                      f_severity = Warning, f_rule = Some ''no-unused-vars'' \<rparr>]
              else []))"

text \<open>The body of the loop over the files found: every line of every file, in order.\<close>

definition js_file_findings :: "string \<times> string \<Rightarrow> StaticFinding list" where
  "js_file_findings f =
     (case f of (relativePath, content) \<Rightarrow>
        concat (map (\<lambda>(index, line). js_line_findings relativePath content index line)
                  (enumerate 0 (split_lines content))))"

definition summarize_findings :: "nat \<Rightarrow> StaticFinding list \<Rightarrow> StaticAnalysisResult" where
  "summarize_findings nfiles errs =
     \<lparr> errors = errs,
       summary = \<lparr> totalFiles = nfiles,
                   totalErrors = length (filter (\<lambda>e. f_severity e = Error) errs),
                   totalWarnings = length (filter (\<lambda>e. f_severity e = Warning) errs) \<rparr> \<rparr>"

text \<open>
  The loop over the files found: each is read, then checked; a file that cannot be read
  ends the analysis with the error.
\<close>

fun files_findings ::
  "(string \<times> string \<Rightarrow> StaticFinding list) \<Rightarrow> (string \<times> (js_error + string)) list
     \<Rightarrow> js_error + StaticFinding list" where
  "files_findings check [] = Inr []"
| "files_findings check ((filePath, content) # rest) =
     bind_sum content (\<lambda>text.
     bind_sum (files_findings check rest) (\<lambda>more. Inr (check (filePath, text) @ more)))"

definition analyzeJavaScript :: "entry list \<Rightarrow> js_error + StaticAnalysisResult" where
  "analyzeJavaScript root =
     bind_sum (findFiles root [''.js'', ''.jsx'', ''.ts'', ''.tsx'']) (\<lambda>jsFiles.
     bind_sum (files_findings js_file_findings jsFiles) (\<lambda>errs.
       Inr (summarize_findings (length jsFiles) errs)))"

text \<open>
  The Python checks of one line; \<open>next_line\<close> is \<^verbatim>\<open>lines[index + 1]\<close>, absent after the
  last line.
\<close>

definition py_line_findings ::
  "string \<Rightarrow> nat \<Rightarrow> string \<Rightarrow> string option \<Rightarrow> StaticFinding list" where
  "py_line_findings relativePath index line next_line =
     (let lineNumber = index + 1;
          trimmedLine = trim line
      in (if str_includes trimmedLine ''execute('' \<and> str_includes trimmedLine ''%''
              \<and> str_includes trimmedLine ''SELECT''
          then [\<lparr> f_file = relativePath, f_line = lineNumber,
                  f_message = ''Potential SQL injection vulnerability'',
                  f_severity = Error, f_rule = Some ''security/sql-injection'' \<rparr>]
          else [])
       @ (if str_includes trimmedLine ''eval('' \<or> str_includes trimmedLine ''exec(''
          then [\<lparr> f_file = relativePath, f_line = lineNumber,
                  f_message = ''Use of eval() or exec() is dangerous'',
                  f_severity = Error, f_rule = Some ''security/eval-exec'' \<rparr>]
          else [])
       @ (if (str_includes trimmedLine ''password'' \<or> str_includes trimmedLine ''secret'')
              \<and> str_includes trimmedLine ''=''
              \<and> (str_includes trimmedLine [CHR 0x22] \<or> str_includes trimmedLine [CHR 0x27])
          then [\<lparr> f_file = relativePath, f_line = lineNumber,
                  f_message = ''Hardcoded secret detected'',
                  f_severity = Error, f_rule = Some ''security/hardcoded-secret'' \<rparr>]
          else [])
       @ (if trimmedLine = ''except:''
          then [\<lparr> f_file = relativePath, f_line = lineNumber,
                  f_message = ''Bare except clause should specify exception type'',
                  f_severity = Warning, f_rule = Some ''bare-except'' \<rparr>]
          else [])
       @ (if length line > 100
          then [\<lparr> f_file = relativePath, f_line = lineNumber,
                  f_message = ''Line too long (>100 characters)'',
                  f_severity = Warning, f_rule = Some ''line-too-long'' \<rparr>]
          else [])
       @ (if startsWith trimmedLine ''def ''
              \<and> \<not> (case next_line of None \<Rightarrow> False
                     | Some l \<Rightarrow> startsWith (trim l) [CHR 0x22, CHR 0x22, CHR 0x22])
          then [\<lparr> f_file = relativePath, f_line = lineNumber,
                  f_message = ''Function missing docstring'',
                  f_severity = Info, f_rule = Some ''missing-docstring'' \<rparr>]
          else []))"

definition py_file_findings :: "string \<times> string \<Rightarrow> StaticFinding list" where
  "py_file_findings f =
     (case f of (relativePath, content) \<Rightarrow>
        (let lines = split_lines content
         in concat (map (\<lambda>(index, line).
                       py_line_findings relativePath index line
                         (if index + 1 < length lines then Some (lines ! (index + 1)) else None))
                     (enumerate 0 lines))))"

definition analyzePython :: "entry list \<Rightarrow> js_error + StaticAnalysisResult" where
  "analyzePython root =
     bind_sum (findFiles root [''.py'']) (\<lambda>pyFiles.
     bind_sum (files_findings py_file_findings pyFiles) (\<lambda>errs.
       Inr (summarize_findings (length pyFiles) errs)))"

definition runStaticAnalysis :: "entry list \<Rightarrow> string \<Rightarrow> js_error + StaticAnalysisResult" where
  "runStaticAnalysis root language =
     (if language = ''javascript'' then analyzeJavaScript root
      else if language = ''python'' then analyzePython root
      else Inr \<lparr> errors = [],
                 summary = \<lparr> totalFiles = 0, totalErrors = 0, totalWarnings = 0 \<rparr> \<rparr>)"

section \<open>File collector: the text filter (routes/upload.ts)\<close>

text \<open>
  \<^verbatim>\<open>isTextContent\<close>. The source compares the floating-point quotient
  \<^verbatim>\<open>printableChars / totalChars\<close> with \<^verbatim>\<open>0.7\<close>; for two lengths of strings this is the
  exact comparison \<open>10 * printableChars > 7 * totalChars\<close>, and the empty content
  (\<^verbatim>\<open>0 / 0\<close>, not a number) compares false on both sides.
\<close>

definition isTextContent :: "string \<Rightarrow> bool" where
  "isTextContent content =
     (if str_includes content [CHR 0x00] then False
      else let printableChars =
                 length (filter (\<lambda>c. c \<notin> set [CHR 0x0D, CHR 0x0A, CHR 0x09]) content);
               totalChars = length content
           in 10 * printableChars > 7 * totalChars)"

section \<open>Language detection (analyzer.ts)\<close>

text \<open>
  \<^verbatim>\<open>getAllFiles\<close>: every file the walk reaches, as its path. Every name listed is passed
  to \<^verbatim>\<open>fs.stat\<close> first, so a name on which that fails ends the walk with the error;
  directories whose name starts with a dot and \<^verbatim>\<open>node_modules\<close> are not entered.
\<close>

fun getAllFiles_entry :: "string \<Rightarrow> entry \<Rightarrow> js_error + string list"
  and getAllFiles_items :: "string \<Rightarrow> entry list \<Rightarrow> js_error + string list"
where
  "getAllFiles_entry prefix (File n c) = Inr [prefix @ n]"
| "getAllFiles_entry prefix (Unreadable n) = Inr [prefix @ n]"
| "getAllFiles_entry prefix (Dangling n) = Inl (SystemError ''ENOENT'')"
| "getAllFiles_entry prefix (Locked n) =
     (if \<not> startsWith n ''.'' \<and> n \<noteq> ''node_modules'' then Inl (SystemError ''EACCES'')
      else Inr [])"
| "getAllFiles_entry prefix (Dir n es) =
     (if \<not> startsWith n ''.'' \<and> n \<noteq> ''node_modules''
      then getAllFiles_items (prefix @ n @ ''/'') es
      else Inr [])"
| "getAllFiles_items prefix [] = Inr []"
| "getAllFiles_items prefix (e # es) =
     bind_sum (getAllFiles_entry prefix e) (\<lambda>found.
     bind_sum (getAllFiles_items prefix es) (\<lambda>more. Inr (found @ more)))"

definition getAllFiles :: "entry list \<Rightarrow> js_error + string list" where
  "getAllFiles root = getAllFiles_items [] root"

text \<open>The last component of a path built by \<^verbatim>\<open>path.join\<close>.\<close>

definition basename :: "string \<Rightarrow> string" where
  "basename p = rev (takeWhile (\<lambda>c. c \<noteq> CHR ''/'') (rev p))"

definition detectLanguage :: "entry list \<Rightarrow> js_error + string" where
  "detectLanguage root =
     (let files = map entry_name root
      in if ''package.json'' \<in> set files then Inr ''javascript''
         else if ''requirements.txt'' \<in> set files \<or> ''setup.py'' \<in> set files
         then Inr ''python''
         else if ''Cargo.toml'' \<in> set files then Inr ''rust''
         else if ''go.mod'' \<in> set files then Inr ''go''
         else if ''pom.xml'' \<in> set files \<or> ''build.gradle'' \<in> set files then Inr ''java''
         else
           bind_sum (getAllFiles root) (\<lambda>allFiles.
             let extensions = map (\<lambda>f. toLowerCase (extname (basename f))) allFiles
             in if list_ex (\<lambda>ext. ext \<in> set [''.js'', ''.jsx'', ''.ts'', ''.tsx'']) extensions
                then Inr ''javascript''
                else if list_ex (\<lambda>ext. ext \<in> set [''.py'']) extensions then Inr ''python''
                else if list_ex (\<lambda>ext. ext \<in> set [''.java'']) extensions then Inr ''java''
                else if list_ex (\<lambda>ext. ext \<in> set [''.rs'']) extensions then Inr ''rust''
                else if list_ex (\<lambda>ext. ext \<in> set [''.go'']) extensions then Inr ''go''
                else Inr ''unknown''))"

section \<open>Dependency analyzer (dependency-analyzer.ts)\<close>

text \<open>
  A value of a manifest: a string, or anything else JSON allows. An object is the list of
  its properties in the order \<^verbatim>\<open>Object.entries\<close> lists them (names that are array indices,
  which JavaScript lists first, are not package names and are left out of the model).
  The manifest is a JSON object whose \<^verbatim>\<open>dependencies\<close> and \<^verbatim>\<open>devDependencies\<close> members,
  when present, are objects; an absent member is the empty list, since spreading
  \<^verbatim>\<open>undefined\<close> adds nothing.
\<close>

datatype json_value = JString string | JOther

record package_json =
  pj_dependencies :: "(string \<times> json_value) list"
  pj_devDependencies :: "(string \<times> json_value) list"

text \<open>
  What an analyzer finds on disk: the tree, and the result of \<^verbatim>\<open>fs.readJson\<close> on
  \<^verbatim>\<open>package.json\<close>, which rejects with the reader's error when the path cannot be read
  and with the parser's error when the file is not valid JSON. The result is consulted
  only when the path exists.
\<close>

record repo =
  root :: "entry list"
  packageJson :: "js_error + package_json"

text \<open>Assigning a property: an existing name keeps its place, a new one goes last.\<close>

fun obj_set :: "(string \<times> 'a) list \<Rightarrow> string \<Rightarrow> 'a \<Rightarrow> (string \<times> 'a) list" where
  "obj_set [] k v = [(k, v)]"
| "obj_set ((k', v') # kvs) k v =
     (if k' = k then (k, v) # kvs else (k', v') # obj_set kvs k v)"

text \<open>\<^verbatim>\<open>{...a, ...b}\<close>\<close>

definition spread2 :: "(string \<times> 'a) list \<Rightarrow> (string \<times> 'a) list \<Rightarrow> (string \<times> 'a) list" where
  "spread2 a b = foldl (\<lambda>acc kv. obj_set acc (fst kv) (snd kv)) [] (a @ b)"

text \<open>
  Indexing an object literal by a name: the table's own entry, or the member of
  \<^verbatim>\<open>Object.prototype\<close> of that name, which every object literal inherits, or undefined.
  Every inherited member is a built-in function, except \<^verbatim>\<open>__proto__\<close>, which is the prototype
  object itself; all of them are truthy.
\<close>

datatype 'a lookup = Missing | Own 'a | Inherited js_value

definition object_prototype_member :: "string \<Rightarrow> js_value option" where
  "object_prototype_member = map_of
     [(''constructor'', NativeFunction ''Object''),
      (''__defineGetter__'', NativeFunction ''__defineGetter__''),
      (''__defineSetter__'', NativeFunction ''__defineSetter__''),
      (''hasOwnProperty'', NativeFunction ''hasOwnProperty''),
      (''__lookupGetter__'', NativeFunction ''__lookupGetter__''),
      (''__lookupSetter__'', NativeFunction ''__lookupSetter__''),
      (''isPrototypeOf'', NativeFunction ''isPrototypeOf''),
      (''propertyIsEnumerable'', NativeFunction ''propertyIsEnumerable''),
      (''toString'', NativeFunction ''toString''),
      (''valueOf'', NativeFunction ''valueOf''),
      (''__proto__'', ObjectPrototype),
      (''toLocaleString'', NativeFunction ''toLocaleString'')]"

definition table_lookup :: "(string \<times> 'a) list \<Rightarrow> string \<Rightarrow> 'a lookup" where
  "table_lookup table name =
     (case map_of table name of
        Some v \<Rightarrow> Own v
      | None \<Rightarrow> (case object_prototype_member name of
                   Some m \<Rightarrow> Inherited m
                 | None \<Rightarrow> Missing))"

definition js_mockLatestVersions :: "string \<Rightarrow> string lookup" where
  "js_mockLatestVersions = table_lookup
     [(''express'', ''4.18.2''), (''lodash'', ''4.17.21''), (''axios'', ''1.5.0''),
      (''react'', ''18.2.0''), (''vue'', ''3.3.4''), (''bcrypt'', ''5.1.0'')]"

definition js_mockVulnerabilities :: "string \<Rightarrow> (string \<times> severity) lookup" where
  "js_mockVulnerabilities = table_lookup
     [(''lodash'', (''Prototype Pollution (CVE-2019-10744)'', High)),
      (''express'', (''Open Redirect (CVE-2022-24999)'', Medium)),
      (''bcrypt'', (''Timing Attack Vulnerability'', Medium))]"

text \<open>\<^verbatim>\<open>version.replace(/[\^~]/, '')\<close>: the first caret or tilde, wherever it is, is removed.\<close>

fun remove_first_range_char :: "string \<Rightarrow> string" where
  "remove_first_range_char [] = []"
| "remove_first_range_char (c # cs) =
     (if c = CHR ''^'' \<or> c = CHR ''~'' then cs else c # remove_first_range_char cs)"

text \<open>
  One pass of the loop over the merged dependencies: the lists so far, extended by what
  this dependency adds, or the error thrown on the way. \<^verbatim>\<open>semver.lt\<close> parses its first
  argument, then its second, so an inherited member as the latest version makes it throw
  in either case.
\<close>

definition js_check_dependency ::
  "string \<Rightarrow> json_value \<Rightarrow> OutdatedDependency list \<times> VulnerableDependency list
     \<Rightarrow> js_error + OutdatedDependency list \<times> VulnerableDependency list" where
  "js_check_dependency name version acc =
     (case version of
        JOther \<Rightarrow> Inl (TypeError ''version.replace is not a function'')
      | JString v \<Rightarrow>
          (let currentVersion = remove_first_range_char v
           in bind_sum
                (case js_mockLatestVersions name of
                   Missing \<Rightarrow> Inr (fst acc)
                 | Inherited m \<Rightarrow>
                     bind_sum (semver_parse currentVersion) (\<lambda>parsed.
                       Inl (TypeError ''Invalid Version''))
                 | Own latestVersion \<Rightarrow>
                     bind_sum (semver_lt currentVersion latestVersion) (\<lambda>older.
                       if older
                       then bind_sum (semver_major currentVersion) (\<lambda>cmaj.
                            bind_sum (semver_major latestVersion) (\<lambda>lmaj.
                              if cmaj < lmaj
                              then Inr (fst acc @ [\<lparr> o_name = name, o_current = currentVersion,
                                                     o_latest = Str latestVersion,
                                                     o_severity = High \<rparr>])
                              else bind_sum (semver_minor currentVersion) (\<lambda>cmin.
                                   bind_sum (semver_minor latestVersion) (\<lambda>lmin.
                                     Inr (fst acc @ [\<lparr> o_name = name, o_current = currentVersion,
                                                       o_latest = Str latestVersion,
                                                       o_severity = (if cmin < lmin then Medium else Low) \<rparr>])))))
                       else Inr (fst acc)))
                (\<lambda>outdated'.
                   case js_mockVulnerabilities name of
                     Missing \<Rightarrow> Inr (outdated', snd acc)
                   | Inherited m \<Rightarrow>
                       Inr (outdated',
                            snd acc @ [\<lparr> v_name = name, v_version = currentVersion,
                                         v_vulnerability = None, v_severity = None \<rparr>])
                   | Own vuln \<Rightarrow>
                       Inr (outdated',
                            snd acc @ [\<lparr> v_name = name, v_version = currentVersion,
                                         v_vulnerability = Some (fst vuln),
                                         v_severity = Some (snd vuln) \<rparr>]))))"

fun js_check_all ::
  "(string \<times> json_value) list \<Rightarrow> OutdatedDependency list \<times> VulnerableDependency list
     \<Rightarrow> js_error + OutdatedDependency list \<times> VulnerableDependency list" where
  "js_check_all [] acc = Inr acc"
| "js_check_all ((name, version) # rest) acc =
     bind_sum (js_check_dependency name version acc) (js_check_all rest)"

definition analyzeJavaScriptDependencies :: "repo \<Rightarrow> js_error + DependencyAnalysis" where
  "analyzeJavaScriptDependencies r =
     (if \<not> pathExists (root r) ''package.json''
      then Inr \<lparr> total = 0, outdated = [], vulnerable = [] \<rparr>
      else bind_sum (packageJson r) (\<lambda>pj.
             let deps = spread2 (pj_dependencies pj) (pj_devDependencies pj)
             in bind_sum (js_check_all deps ([], [])) (\<lambda>res.
                  Inr \<lparr> total = length deps, outdated = fst res, vulnerable = snd res \<rparr>)))"

text \<open>
  \<^verbatim>\<open>line.match(/^([a-zA-Z0-9\-_]+)([>=<~!]+)?(.+)?$/)\<close>: the name is the longest run of name
  characters, the operator the longest run of operator characters after it, the version
  what is left; an empty group is undefined. The dot does not match a carriage return, so
  a line that holds one does not match at all, and neither does a line that starts with
  anything but a name character.
\<close>

definition is_name_char :: "char \<Rightarrow> bool" where
  "is_name_char c = (is_id_char c \<or> c = CHR ''_'')"

definition is_operator_char :: "char \<Rightarrow> bool" where
  "is_operator_char c = (c \<in> set ''>=<~!'')"

definition requirement_match :: "string \<Rightarrow> (string \<times> string option \<times> string option) option" where
  "requirement_match line =
     (let name = takeWhile is_name_char line;
          rest = dropWhile is_name_char line;
          operator = takeWhile is_operator_char rest;
          version = dropWhile is_operator_char rest
      in if name = [] \<or> CHR 0x0D \<in> set line \<or> CHR 0x0A \<in> set line then None
         else Some (name,
                    if operator = [] then None else Some operator,
                    if version = [] then None else Some version))"

definition py_mockLatestVersions :: "string \<Rightarrow> string lookup" where
  "py_mockLatestVersions = table_lookup
     [(''django'', ''4.2.5''), (''flask'', ''2.3.3''), (''requests'', ''2.31.0''),
      (''numpy'', ''1.24.3''), (''pandas'', ''2.0.3'')]"

definition py_mockVulnerabilities :: "string \<Rightarrow> (string \<times> severity) lookup" where
  "py_mockVulnerabilities = table_lookup
     [(''django'', (''SQL Injection (CVE-2023-36053)'', High)),
      (''requests'', (''Certificate Verification Bypass'', Medium))]"

text \<open>The lines the Python path keeps: not blank after trimming, not starting with a hash.\<close>

definition requirement_lines :: "string \<Rightarrow> string list" where
  "requirement_lines requirementsContent =
     filter (\<lambda>line. trim line \<noteq> [] \<and> \<not> startsWith line ''#'')
       (split_lines requirementsContent)"

text \<open>
  The loop of the Python path. An inherited member as the latest version is truthy and
  differs from every string, so an outdated record is pushed with it.
\<close>

fun py_check_all ::
  "string list \<Rightarrow> OutdatedDependency list \<times> VulnerableDependency list
     \<Rightarrow> OutdatedDependency list \<times> VulnerableDependency list" where
  "py_check_all [] acc = acc"
| "py_check_all (line # rest) acc =
     (case requirement_match line of
        None \<Rightarrow> py_check_all rest acc
      | Some (name, operator, version) \<Rightarrow>
          (let currentVersion = (case version of None \<Rightarrow> ''0.0.0'' | Some v \<Rightarrow> v);
               outdated' =
                 (case py_mockLatestVersions name of
                    Missing \<Rightarrow> fst acc
                  | Inherited m \<Rightarrow>
                      fst acc @ [\<lparr> o_name = name, o_current = currentVersion,
                                   o_latest = m, o_severity = Medium \<rparr>]
                  | Own latestVersion \<Rightarrow>
                      if currentVersion \<noteq> latestVersion
                      then fst acc @ [\<lparr> o_name = name, o_current = currentVersion,
                                        o_latest = Str latestVersion, o_severity = Medium \<rparr>]
                      else fst acc);
               vulnerable' =
                 (case py_mockVulnerabilities name of
                    Missing \<Rightarrow> snd acc
                  | Inherited m \<Rightarrow>
                      snd acc @ [\<lparr> v_name = name, v_version = currentVersion,
                                   v_vulnerability = None, v_severity = None \<rparr>]
                  | Own vuln \<Rightarrow>
                      snd acc @ [\<lparr> v_name = name, v_version = currentVersion,
                                   v_vulnerability = Some (fst vuln),
                                   v_severity = Some (snd vuln) \<rparr>])
           in py_check_all rest (outdated', vulnerable')))"

definition analyzePythonDependencies :: "repo \<Rightarrow> js_error + DependencyAnalysis" where
  "analyzePythonDependencies r =
     (if \<not> pathExists (root r) ''requirements.txt''
      then Inr \<lparr> total = 0, outdated = [], vulnerable = [] \<rparr>
      else bind_sum (readFile (root r) ''requirements.txt'') (\<lambda>requirementsContent.
             let lines = requirement_lines requirementsContent;
                 res = py_check_all lines ([], [])
             in Inr \<lparr> total = length lines, outdated = fst res, vulnerable = snd res \<rparr>))"

definition analyzeDependencies :: "repo \<Rightarrow> string \<Rightarrow> js_error + DependencyAnalysis" where
  "analyzeDependencies r language =
     (if language = ''javascript'' then analyzeJavaScriptDependencies r
      else if language = ''python'' then analyzePythonDependencies r
      else Inr \<lparr> total = 0, outdated = [], vulnerable = [] \<rparr>)"

section \<open>Risk summarizer: the primary path\<close>

text \<open>
  The language model is a collaborator. What the summarizer sees of it is one of four
  outcomes: no credential is configured, the call fails, the reply holds no object with
  the four required members, or it holds one.
\<close>

datatype llm_outcome = NoApiKey | CallFailed | Unparseable | Parsed AISummary

definition generateAISummary ::
  "llm_outcome \<Rightarrow> DependencyAnalysis \<Rightarrow> StaticAnalysisResult \<Rightarrow> AISummary" where
  "generateAISummary reply deps sa =
     (case reply of
        Parsed parsed \<Rightarrow> parsed\<lparr> recommendations := take 6 (recommendations parsed),
                                 priorityFixes := take 5 (priorityFixes parsed) \<rparr>
      | _ \<Rightarrow> generateMockSummary deps sa)"

section \<open>Analysis orchestrator (analyzer.ts)\<close>

record RepositoryInfo =
  r_name :: string
  r_url :: string
  r_language :: string

record AnalysisResult =
  repository :: RepositoryInfo
  dependencies :: DependencyAnalysis
  staticAnalysis :: StaticAnalysisResult
  aiSummary :: AISummary

text \<open>\<^verbatim>\<open>s.endsWith(t)\<close>\<close>

definition endsWith :: "string \<Rightarrow> string \<Rightarrow> bool" where
  "endsWith s t = startsWith (rev s) (rev t)"

text \<open>
  \<^verbatim>\<open>extractRepoName\<close>. The first pattern, \<^verbatim>\<open>/\/([^\/]+)\.git$/\<close>, can only match at the
  last slash, what follows it being a non-empty name and \<^verbatim>\<open>.git\<close>; the second,
  \<^verbatim>\<open>/\/([^\/]+)\/?$/\<close>, matches the last component, one trailing slash allowed.
\<close>

definition git_suffix_match :: "string \<Rightarrow> string option" where
  "git_suffix_match url =
     (let seg = basename url
      in if CHR ''/'' \<in> set url \<and> endsWith seg ''.git'' \<and> length seg > 4
         then Some (take (length seg - 4) seg) else None)"

definition last_component_match :: "string \<Rightarrow> string option" where
  "last_component_match url =
     (let u = (if url \<noteq> [] \<and> last url = CHR ''/'' then butlast url else url)
      in if CHR ''/'' \<in> set u \<and> basename u \<noteq> [] then Some (basename u) else None)"

definition extractRepoName :: "string \<Rightarrow> string" where
  "extractRepoName repoUrl =
     (if str_includes repoUrl ''demo'' then ''demo-repo''
      else (case git_suffix_match repoUrl of
              Some n \<Rightarrow> n
            | None \<Rightarrow> (case last_component_match repoUrl of
                         Some n \<Rightarrow> n
                       | None \<Rightarrow> ''unknown-repo'')))"

definition analyzeDemoRepository :: AnalysisResult where
  "analyzeDemoRepository =
     \<lparr> repository = \<lparr> r_name = ''vulnerable-todo-app'', r_url = ''demo'',
                      r_language = ''javascript'' \<rparr>,
       dependencies =
         \<lparr> total = 4,
           outdated =
             [\<lparr> o_name = ''express'', o_current = ''4.16.0'', o_latest = Str ''4.18.2'',
                 o_severity = Medium \<rparr>,
              \<lparr> o_name = ''lodash'', o_current = ''4.17.4'', o_latest = Str ''4.17.21'',
                 o_severity = High \<rparr>],
           vulnerable =
             [\<lparr> v_name = ''lodash'', v_version = ''4.17.4'',
                 v_vulnerability = Some ''Prototype Pollution (CVE-2019-10744)'',
                 v_severity = Some High \<rparr>,
              \<lparr> v_name = ''bcrypt'', v_version = ''3.0.0'',
                 v_vulnerability = Some ''Timing Attack Vulnerability'',
                 v_severity = Some Medium \<rparr>] \<rparr>,
       staticAnalysis =
         \<lparr> errors =
             [\<lparr> f_file = ''server.js'', f_line = 15,
                 f_message = ''Potential SQL injection vulnerability'',
                 f_severity = Error, f_rule = Some ''security/detect-sql-injection'' \<rparr>,
              \<lparr> f_file = ''server.js'', f_line = 8,
                 f_message = ''Hardcoded database credentials'',
                 f_severity = Error, f_rule = Some ''security/detect-hardcoded-credentials'' \<rparr>,
              \<lparr> f_file = ''utils.js'', f_line = 14,
                 f_message = ''Use of eval() is dangerous'',
                 f_severity = Error, f_rule = Some ''security/detect-eval-with-expression'' \<rparr>,
              \<lparr> f_file = ''server.js'', f_line = 35,
                 f_message = ''Synchronous function in async context'',
                 f_severity = Warning, f_rule = Some ''performance/no-sync-in-async'' \<rparr>],
           summary = \<lparr> totalFiles = 3, totalErrors = 3, totalWarnings = 1 \<rparr> \<rparr>,
       aiSummary =
         \<lparr> riskLevel = HighRisk,
           summary_text = ''This repository contains several critical security vulnerabilities including SQL injection, hardcoded credentials, and dangerous use of eval(). The outdated dependencies also introduce additional security risks.'',
           recommendations =
             [''Immediately fix SQL injection vulnerabilities by using parameterized queries'',
              ''Remove hardcoded database credentials and use environment variables'',
              ''Replace eval() usage with safer alternatives like JSON.parse()'',
              ''Update all dependencies to their latest secure versions'',
              ''Implement input validation and sanitization'',
              ''Add security headers and CORS protection''],
           priorityFixes =
             [''Fix SQL injection in server.js line 15'',
              ''Remove hardcoded credentials in server.js line 8'',
              ''Update lodash to fix prototype pollution vulnerability''] \<rparr> \<rparr>"

text \<open>
  The world outside one run: whether the temporary directory can be created, whether a
  clone directory of an earlier run is still there, what cloning a URL yields (the
  repository, or an error together with whether the target directory is left behind), what
  removing the clone directory yields, and what the language model does.
\<close>

record env =
  ensureDir :: "js_error option"
  leftover :: bool
  cloneRepository :: "string \<Rightarrow> (js_error \<times> bool) + repo"
  removeClone :: "js_error option"
  llm :: llm_outcome

text \<open>The calls a run makes to the file system, the fetch collaborator and the stages.\<close>

datatype event =
  EnsureDir | CloneRepository string | DetectLanguage | AnalyzeDependencies
  | RunStaticAnalysis | GenerateAISummary | RemoveClone

text \<open>
  The catch block: when the clone directory exists it is removed, and the error is
  thrown again; if the removal fails, its error is thrown instead.
\<close>

definition rethrown :: "env \<Rightarrow> bool \<Rightarrow> js_error \<Rightarrow> js_error" where
  "rethrown world exists e =
     (if exists then (case removeClone world of None \<Rightarrow> e | Some e' \<Rightarrow> e') else e)"

definition catch_block ::
  "env \<Rightarrow> bool \<Rightarrow> event list \<Rightarrow> js_error \<Rightarrow> event list \<times> (js_error + AnalysisResult)" where
  "catch_block world exists trace e =
     (if exists then trace @ [RemoveClone] else trace, Inl (rethrown world exists e))"

text \<open>
  \<^verbatim>\<open>analyzeRepository\<close>: the calls made, in order, and the report or the error thrown. Once
  the clone has succeeded its directory exists, and a directory whose removal failed is
  still there.
\<close>

definition analyzeRepository :: "env \<Rightarrow> string \<Rightarrow> event list \<times> (js_error + AnalysisResult)" where
  "analyzeRepository world repoUrl =
     (let repoName = extractRepoName repoUrl
      in case ensureDir world of
           Some e \<Rightarrow> catch_block world (leftover world) [EnsureDir] e
         | None \<Rightarrow>
             if str_includes repoUrl ''demo'' \<or> repoUrl = ''demo''
             then ([EnsureDir], Inr analyzeDemoRepository)
             else
               (case cloneRepository world repoUrl of
                  Inl failure \<Rightarrow>
                    catch_block world (snd failure) [EnsureDir, CloneRepository repoUrl]
                      (fst failure)
                | Inr r \<Rightarrow>
                    (case detectLanguage (root r) of
                       Inl e \<Rightarrow>
                         catch_block world True
                           [EnsureDir, CloneRepository repoUrl, DetectLanguage] e
                     | Inr language \<Rightarrow>
                         (case analyzeDependencies r language of
                            Inl e \<Rightarrow>
                              catch_block world True
                                [EnsureDir, CloneRepository repoUrl, DetectLanguage,
                                 AnalyzeDependencies] e
                          | Inr deps \<Rightarrow>
                              (case runStaticAnalysis (root r) language of
                                 Inl e \<Rightarrow>
                                   catch_block world True
                                     [EnsureDir, CloneRepository repoUrl, DetectLanguage,
                                      AnalyzeDependencies, RunStaticAnalysis] e
                               | Inr sa \<Rightarrow>
                                   (let ai = generateAISummary (llm world) deps sa
                                    in case removeClone world of
                                         Some e \<Rightarrow>
                                           catch_block world True
                                             [EnsureDir, CloneRepository repoUrl, DetectLanguage,
                                              AnalyzeDependencies, RunStaticAnalysis,
                                              GenerateAISummary, RemoveClone] e
                                       | None \<Rightarrow>
                                           ([EnsureDir, CloneRepository repoUrl, DetectLanguage,
                                             AnalyzeDependencies, RunStaticAnalysis,
                                             GenerateAISummary, RemoveClone],
                                            Inr \<lparr> repository =
                                                    \<lparr> r_name = repoName, r_url = repoUrl,
                                                      r_language = language \<rparr>,
                                                  dependencies = deps,
                                                  staticAnalysis = sa,
                                                  aiSummary = ai \<rparr>)))))))"

section \<open>The specification's risk rule, and fixtures\<close>

text \<open>
  The fallback risk level as the specification words it: critical if any vulnerability is
  critical; else high if high-severity vulnerabilities plus error findings exceed 2; else
  medium if that sum is positive or medium-severity outdated dependencies plus warning
  findings exceed 3; else low.
\<close>

definition spec_riskLevel :: "DependencyAnalysis \<Rightarrow> StaticAnalysisResult \<Rightarrow> risk" where
  "spec_riskLevel d s =
     (let highSum = length (filter (\<lambda>v. v_severity v = Some High) (vulnerable d))
                    + length (filter (\<lambda>e. f_severity e = Error) (errors s));
          mediumSum = length (filter (\<lambda>x. o_severity x = Medium) (outdated d))
                      + length (filter (\<lambda>e. f_severity e = Warning) (errors s))
      in if list_ex (\<lambda>v. v_severity v = Some Critical) (vulnerable d) then CriticalRisk
         else if highSum > 2 then HighRisk
         else if highSum > 0 \<or> mediumSum > 3 then MediumRisk
         else LowRisk)"

definition demo_vuln :: VulnerableDependency where
  "demo_vuln = \<lparr> v_name = ''lodash'', v_version = ''4.17.4'',
       v_vulnerability = Some ''Prototype Pollution (CVE-2019-10744)'',
       v_severity = Some High \<rparr>"

definition demo_deps :: DependencyAnalysis where
  "demo_deps = \<lparr> total = 1, outdated = [], vulnerable = [demo_vuln] \<rparr>"

definition no_findings :: StaticAnalysisResult where
  "no_findings = \<lparr> errors = [], summary = \<lparr> totalFiles = 0, totalErrors = 0, totalWarnings = 0 \<rparr> \<rparr>"


text \<open>
  The lower-cased extension of a path; whether a list of paths holds one with an extension
  of a list, and how many.
\<close>

definition file_ext :: "string \<Rightarrow> string" where
  "file_ext f = toLowerCase (extname (basename f))"

definition has_extension :: "string list \<Rightarrow> string list \<Rightarrow> bool" where
  "has_extension files exts = list_ex (\<lambda>f. file_ext f \<in> set exts) files"

definition count_ext :: "string list \<Rightarrow> string list \<Rightarrow> nat" where
  "count_ext files exts = length (filter (\<lambda>f. file_ext f \<in> set exts) files)"

definition marker_files :: "string list" where
  "marker_files = [''package.json'', ''requirements.txt'', ''setup.py'', ''Cargo.toml'',
                   ''go.mod'', ''pom.xml'', ''build.gradle'']"

definition js_extensions :: "string list" where
  "js_extensions = [''.js'', ''.jsx'', ''.ts'', ''.tsx'']"

definition known_extensions :: "string list" where
  "known_extensions = [''.js'', ''.jsx'', ''.ts'', ''.tsx'', ''.py'', ''.java'', ''.rs'', ''.go'']"

text \<open>A tree without marker files, with two Python files and one JavaScript file.\<close>

definition py_majority_tree :: "entry list" where
  "py_majority_tree = [File ''a.py'' [], File ''b.py'' [], File ''c.js'' []]"

text \<open>
  A tree whose only JavaScript files lie in a dot-directory and in \<^verbatim>\<open>node_modules\<close>, and a
  tree with a symbolic link whose target is gone.
\<close>

definition hidden_js_tree :: "entry list" where
  "hidden_js_tree =
     [File ''a.py'' [], Dir ''.github'' [File ''c.js'' []], Dir ''node_modules'' [File ''d.js'' []]]"

definition dangling_tree :: "entry list" where
  "dangling_tree = [File ''a.py'' [], Dir ''lib'' [Dangling ''link'', File ''b.js'' []]]"


text \<open>A Python file with a function that has no docstring.\<close>

definition py_source_tree :: "entry list" where
  "py_source_tree = [File ''m.py'' (''def f():'' @ [CHR 0x0A] @ ''    return eval(x)'')]"

text \<open>Scenario A's manifest: \<^verbatim>\<open>{"dependencies":{"lodash":"4.17.4"}}\<close>, as text and parsed.\<close>

definition lodash_manifest_text :: string where
  "lodash_manifest_text =
     ''{'' @ [CHR 0x22] @ ''dependencies'' @ [CHR 0x22] @ '':{'' @ [CHR 0x22] @ ''lodash''
     @ [CHR 0x22] @ '':'' @ [CHR 0x22] @ ''4.17.4'' @ [CHR 0x22] @ ''}}''"

definition lodash_repo :: repo where
  "lodash_repo =
     \<lparr> root = [File ''package.json'' lodash_manifest_text],
       packageJson = Inr \<lparr> pj_dependencies = [(''lodash'', JString ''4.17.4'')],
                            pj_devDependencies = [] \<rparr> \<rparr>"

text \<open>A \<^verbatim>\<open>requirements.txt\<close> that declares \<^verbatim>\<open>django\<close> on two lines.\<close>

definition duplicate_requirements :: string where
  "duplicate_requirements = ''django==1.0'' @ [CHR 0x0A] @ ''django==2.0''"

definition duplicate_repo :: repo where
  "duplicate_repo =
     \<lparr> root = [File ''requirements.txt'' duplicate_requirements],
       packageJson = Inl (SystemError ''ENOENT'') \<rparr>"

text \<open>The names a \<^verbatim>\<open>requirements.txt\<close> declares: the name group of every line that parses.\<close>

definition py_declared_names :: "string \<Rightarrow> string list" where
  "py_declared_names requirementsContent =
     List.map_filter (\<lambda>line. map_option fst (requirement_match line))
       (requirement_lines requirementsContent)"

text \<open>A repository whose \<^verbatim>\<open>package.json\<close> is cut off in the middle, so that it is not JSON.\<close>

definition broken_manifest_repo :: repo where
  "broken_manifest_repo =
     \<lparr> root = [File ''package.json'' (''{'' @ [CHR 0x22] @ ''dependencies'' @ [CHR 0x22] @ '':'')],
       packageJson = Inl (SyntaxError ''Unexpected end of JSON input'') \<rparr>"

text \<open>
  A world in which every URL clones to a given repository, every file-system call of the
  orchestrator succeeds and no model is configured; and a world in which the temporary
  directory cannot be created.
\<close>

definition world_with :: "repo \<Rightarrow> env" where
  "world_with r =
     \<lparr> ensureDir = None, leftover = False, cloneRepository = (\<lambda>url. Inr r),
       removeClone = None, llm = NoApiKey \<rparr>"

definition unwritable_world :: env where
  "unwritable_world =
     \<lparr> ensureDir = Some (SystemError ''EACCES''), leftover = False,
       cloneRepository = (\<lambda>url. Inl (GitError ''clone failed'', False)),
       removeClone = None, llm = NoApiKey \<rparr>"

text \<open>A \<^verbatim>\<open>requirements.txt\<close> with a line that does not parse between two that do.\<close>

definition malformed_requirements :: string where
  "malformed_requirements =
     ''flask==2.0.0'' @ [CHR 0x0A] @ '' ==broken=='' @ [CHR 0x0A] @ ''requests''"

definition malformed_repo :: repo where
  "malformed_repo =
     \<lparr> root = [File ''requirements.txt'' malformed_requirements],
       packageJson = Inl (SystemError ''ENOENT'') \<rparr>"

text \<open>The same repository with a symbolic link whose target is gone beside the manifest.\<close>

definition dangling_repo :: repo where
  "dangling_repo =
     \<lparr> root = [File ''requirements.txt'' malformed_requirements, Dangling ''latest''],
       packageJson = Inl (SystemError ''ENOENT'') \<rparr>"

text \<open>A manifest that declares \<^verbatim>\<open>lodash\<close> both as a dependency and as a development dependency.\<close>

definition overlap_manifest :: package_json where
  "overlap_manifest =
     \<lparr> pj_dependencies = [(''lodash'', JString ''4.17.4''), (''left-pad'', JString ''1.0.0'')],
       pj_devDependencies = [(''lodash'', JString ''^4.17.21''), (''jest'', JString ''29.0.0'')] \<rparr>"

definition overlap_repo :: repo where
  "overlap_repo = \<lparr> root = [File ''package.json'' ''{}''], packageJson = Inr overlap_manifest \<rparr>"

section \<open>Verified properties\<close>

lemma filter_nonempty_iff: "(filter P xs \<noteq> []) = list_ex P xs"
  by (induction xs) auto

text \<open>
  C2. For every input the fallback summarizer's risk level is the one the specification's
  rule gives, and inserting one critical-severity vulnerability anywhere into the
  vulnerable list of an input whose risk level was not critical makes it critical.
\<close>

theorem C2_risk_level:
  "riskLevel (generateMockSummary d s) = spec_riskLevel d s \<and>
   (v_severity v = Some Critical \<longrightarrow>
    riskLevel (generateMockSummary (d\<lparr>vulnerable := pre @ post\<rparr>) s) \<noteq> CriticalRisk \<longrightarrow>
    riskLevel (generateMockSummary (d\<lparr>vulnerable := pre @ v # post\<rparr>) s) = CriticalRisk)"
proof -
  have crit: "(filter P xs = []) = (\<not> list_ex P xs)" for P and xs :: "VulnerableDependency list"
    using filter_nonempty_iff [of P xs] by blast
  show ?thesis
    by (simp add: generateMockSummary_def spec_riskLevel_def Let_def crit)
qed

theorem C2_risk_level_witness:
  "v_severity (demo_vuln\<lparr>v_severity := Some Critical\<rparr>) = Some Critical \<and>
   riskLevel (generateMockSummary (demo_deps\<lparr>vulnerable := [] @ [demo_vuln]\<rparr>) no_findings) = MediumRisk \<and>
   riskLevel (generateMockSummary
      (demo_deps\<lparr>vulnerable := [] @ demo_vuln\<lparr>v_severity := Some Critical\<rparr> # [demo_vuln]\<rparr>) no_findings) = CriticalRisk"
  using C2_risk_level [of "demo_deps\<lparr>vulnerable := [] @ [demo_vuln]\<rparr>" no_findings
      "demo_vuln\<lparr>v_severity := Some Critical\<rparr>" "[]" "[demo_vuln]"]
  by (simp add: spec_riskLevel_def demo_deps_def demo_vuln_def no_findings_def)

text \<open>
  C5. The fallback summarizer returns, for every input, a summary whose risk level is one of
  the four levels, whose recommendations are non-empty and at most 6, and whose priority
  fixes are at most 5. The model has no error branch: no operation of the source function
  can raise on values of its parameter types.
\<close>

theorem C5_fallback_total:
  "riskLevel (generateMockSummary d s) \<in> {LowRisk, MediumRisk, HighRisk, CriticalRisk} \<and>
   recommendations (generateMockSummary d s) \<noteq> [] \<and>
   length (recommendations (generateMockSummary d s)) \<le> 6 \<and>
   length (priorityFixes (generateMockSummary d s)) \<le> 5"
proof -
  have "riskLevel (generateMockSummary d s) \<in> {LowRisk, MediumRisk, HighRisk, CriticalRisk}"
    by (cases "riskLevel (generateMockSummary d s)") simp_all
  moreover have "recommendations (generateMockSummary d s) \<noteq> []"
    by (simp add: generateMockSummary_def generateRecommendations_def Let_def)
  moreover have "length (recommendations (generateMockSummary d s)) \<le> 6"
    by (simp add: generateMockSummary_def generateRecommendations_def Let_def)
  moreover have "length (priorityFixes (generateMockSummary d s)) \<le> 5"
    by (simp add: generateMockSummary_def generatePriorityFixes_def Let_def)
  ultimately show ?thesis by simp
qed

lemma severity_partition:
  "length (filter (\<lambda>e. f_severity e = Error) xs) + length (filter (\<lambda>e. f_severity e = Warning) xs)
     + length (filter (\<lambda>e. f_severity e = Info) xs) = length xs"
proof (induction xs)
  case Nil
  show ?case by simp
next
  case (Cons x xs)
  then show ?case by (cases "f_severity x") simp_all
qed

lemma analysis_is_summary:
  assumes "runStaticAnalysis tree language = Inr r"
  shows "\<exists>n. r = summarize_findings n (errors r)"
proof -
  have s: "\<exists>n. summarize_findings m xs
               = summarize_findings n (errors (summarize_findings m xs))" for m xs
    by (rule exI [of _ m]) (simp add: summarize_findings_def)
  have z: "\<exists>n. \<lparr> errors = [], summary = \<lparr> totalFiles = 0, totalErrors = 0, totalWarnings = 0 \<rparr> \<rparr>
               = summarize_findings n []"
    by (rule exI [of _ 0]) (simp add: summarize_findings_def)
  consider (js) "language = ''javascript''" | (py) "language = ''python''"
    | (other) "language \<noteq> ''javascript''" "language \<noteq> ''python''"
    by blast
  then show ?thesis
  proof cases
    case js
    then have "\<exists>m xs. r = summarize_findings m xs"
      using assms
      by (auto simp: runStaticAnalysis_def analyzeJavaScript_def bind_sum_def split: sum.splits)
    then obtain m xs where "r = summarize_findings m xs"
      by blast
    then show ?thesis using s by simp
  next
    case py
    then have "\<exists>m xs. r = summarize_findings m xs"
      using assms
      by (auto simp: runStaticAnalysis_def analyzePython_def bind_sum_def split: sum.splits)
    then obtain m xs where "r = summarize_findings m xs"
      by blast
    then show ?thesis using s by simp
  next
    case other
    then have "r = \<lparr> errors = [],
                      summary = \<lparr> totalFiles = 0, totalErrors = 0, totalWarnings = 0 \<rparr> \<rparr>"
      using assms by (simp add: runStaticAnalysis_def)
    then show ?thesis using z by simp
  qed
qed

text \<open>
  C7. For every repository and language, a result produced by the static analyzer has
  totalErrors equal to the number of its findings of severity error and totalWarnings
  equal to the number of severity warning; their sum is at most the number of findings,
  and equals it exactly when no finding has severity info.
\<close>

theorem C7_summary_counts:
  assumes "runStaticAnalysis tree language = Inr r"
  shows "totalErrors (summary r) = length (filter (\<lambda>e. f_severity e = Error) (errors r)) \<and>
         totalWarnings (summary r) = length (filter (\<lambda>e. f_severity e = Warning) (errors r)) \<and>
         totalErrors (summary r) + totalWarnings (summary r) \<le> length (errors r) \<and>
         ((totalErrors (summary r) + totalWarnings (summary r) = length (errors r))
          = (filter (\<lambda>e. f_severity e = Info) (errors r) = []))"
proof -
  obtain n where r: "r = summarize_findings n (errors r)"
    using analysis_is_summary [OF assms] by blast
  have e: "totalErrors (summary r) = length (filter (\<lambda>e. f_severity e = Error) (errors r))"
    by (subst r) (simp add: summarize_findings_def)
  have w: "totalWarnings (summary r) = length (filter (\<lambda>e. f_severity e = Warning) (errors r))"
    by (subst r) (simp add: summarize_findings_def)
  have p: "length (filter (\<lambda>e. f_severity e = Error) (errors r))
           + length (filter (\<lambda>e. f_severity e = Warning) (errors r))
           + length (filter (\<lambda>e. f_severity e = Info) (errors r)) = length (errors r)"
    by (rule severity_partition)
  have le: "totalErrors (summary r) + totalWarnings (summary r) \<le> length (errors r)"
    using e w p by linarith
  have eq: "(totalErrors (summary r) + totalWarnings (summary r) = length (errors r))
            = (filter (\<lambda>e. f_severity e = Info) (errors r) = [])"
    using e w p by auto
  show ?thesis using e w le eq by blast
qed

theorem C7_summary_counts_witness:
  "runStaticAnalysis py_source_tree ''python'' =
     Inr \<lparr> errors =
             [\<lparr> f_file = ''m.py'', f_line = 1, f_message = ''Function missing docstring'',
                 f_severity = Info, f_rule = Some ''missing-docstring'' \<rparr>,
              \<lparr> f_file = ''m.py'', f_line = 2,
                 f_message = ''Use of eval() or exec() is dangerous'',
                 f_severity = Error, f_rule = Some ''security/eval-exec'' \<rparr>],
           summary = \<lparr> totalFiles = 1, totalErrors = 1, totalWarnings = 0 \<rparr> \<rparr> \<and>
   (1::nat) + 0 \<le> 2 \<and> ((1::nat) + 0 \<noteq> 2)"
proof -
  let ?r = "\<lparr> errors =
             [\<lparr> f_file = ''m.py'', f_line = 1, f_message = ''Function missing docstring'',
                 f_severity = Info, f_rule = Some ''missing-docstring'' \<rparr>,
              \<lparr> f_file = ''m.py'', f_line = 2,
                 f_message = ''Use of eval() or exec() is dangerous'',
                 f_severity = Error, f_rule = Some ''security/eval-exec'' \<rparr>],
           summary = \<lparr> totalFiles = 1, totalErrors = 1, totalWarnings = 0 \<rparr> \<rparr>"
  have h: "runStaticAnalysis py_source_tree ''python'' = Inr ?r"
    by code_simp
  have "(1::nat) + 0 \<le> 2 \<and> ((1::nat) + 0 \<noteq> 2)"
    using C7_summary_counts [OF h] by simp
  with h show ?thesis by blast
qed





text \<open>
  C9 (the code at the failing input). Content of four control characters, none of them
  CR, LF, TAB or NUL and none printable, passes the text filter: the filter counts every
  character other than CR, LF and TAB as printable.
\<close>

theorem C9_control_characters_accepted:
  "isTextContent [CHR 0x01, CHR 0x02, CHR 0x03, CHR 0x04] = True"
  by code_simp

lemma list_ex_map_conv: "list_ex P (map f xs) = list_ex (\<lambda>x. P (f x)) xs"
  by (induction xs) simp_all

text \<open>
  C4, amended. For a repository root with none of the marker files, language detection
  walks the tree, leaving out \<^verbatim>\<open>node_modules\<close> and every directory whose name starts with a
  dot. When the walk succeeds, the result is the first language, in the order javascript,
  python, java, rust, go, for which some file the walk reached has an associated
  extension, however many files each language has; it is unknown exactly when no file
  reached has a known extension. When the walk fails (\<^verbatim>\<open>fs.stat\<close> rejects on a name it
  meets, or a directory it enters cannot be listed), detection fails with that error.
\<close>

theorem C4_priority_order:
  assumes "set (map entry_name tree) \<inter> set marker_files = {}"
  shows "(getAllFiles tree = Inr files \<longrightarrow>
            detectLanguage tree =
              Inr (if has_extension files js_extensions then ''javascript''
                   else if has_extension files [''.py''] then ''python''
                   else if has_extension files [''.java''] then ''java''
                   else if has_extension files [''.rs''] then ''rust''
                   else if has_extension files [''.go''] then ''go''
                   else ''unknown'') \<and>
            ((detectLanguage tree = Inr ''unknown'') = (\<not> has_extension files known_extensions))) \<and>
         (getAllFiles tree = Inl e \<longrightarrow> detectLanguage tree = Inl e)"
proof -
  have nomark: "''package.json'' \<notin> set (map entry_name tree)"
    "''requirements.txt'' \<notin> set (map entry_name tree)"
    "''setup.py'' \<notin> set (map entry_name tree)"
    "''Cargo.toml'' \<notin> set (map entry_name tree)"
    "''go.mod'' \<notin> set (map entry_name tree)"
    "''pom.xml'' \<notin> set (map entry_name tree)"
    "''build.gradle'' \<notin> set (map entry_name tree)"
    using assms unfolding marker_files_def by auto
  have known: "has_extension files known_extensions =
      (has_extension files js_extensions \<or> has_extension files [''.py'']
       \<or> has_extension files [''.java''] \<or> has_extension files [''.rs'']
       \<or> has_extension files [''.go''])"
    unfolding has_extension_def known_extensions_def js_extensions_def list_ex_iff by auto
  have ok: "detectLanguage tree =
              Inr (if has_extension files js_extensions then ''javascript''
                   else if has_extension files [''.py''] then ''python''
                   else if has_extension files [''.java''] then ''java''
                   else if has_extension files [''.rs''] then ''rust''
                   else if has_extension files [''.go''] then ''go''
                   else ''unknown'')"
    if "getAllFiles tree = Inr files"
    using nomark that
    by (simp add: detectLanguage_def Let_def bind_sum_def has_extension_def file_ext_def
          js_extensions_def list_ex_map_conv)
  have unknown: "(detectLanguage tree = Inr ''unknown'') = (\<not> has_extension files known_extensions)"
    if "getAllFiles tree = Inr files"
    unfolding ok [OF that] known by simp
  have failed: "detectLanguage tree = Inl e" if "getAllFiles tree = Inl e"
    using nomark that by (simp add: detectLanguage_def Let_def bind_sum_def)
  show ?thesis using ok unknown failed by blast
qed

theorem C4_priority_order_witness:
  "set (map entry_name py_majority_tree) \<inter> set marker_files = {} \<and>
   getAllFiles py_majority_tree = Inr [''a.py'', ''b.py'', ''c.js''] \<and>
   detectLanguage py_majority_tree = Inr ''javascript'' \<and>
   set (map entry_name hidden_js_tree) \<inter> set marker_files = {} \<and>
   getAllFiles hidden_js_tree = Inr [''a.py''] \<and>
   detectLanguage hidden_js_tree = Inr ''python'' \<and>
   set (map entry_name dangling_tree) \<inter> set marker_files = {} \<and>
   getAllFiles dangling_tree = Inl (SystemError ''ENOENT'') \<and>
   detectLanguage dangling_tree = Inl (SystemError ''ENOENT'')"
proof -
  have h1: "set (map entry_name py_majority_tree) \<inter> set marker_files = {}"
    and h2: "set (map entry_name hidden_js_tree) \<inter> set marker_files = {}"
    and h3: "set (map entry_name dangling_tree) \<inter> set marker_files = {}"
    by code_simp+
  have w1: "getAllFiles py_majority_tree = Inr [''a.py'', ''b.py'', ''c.js'']"
    and w2: "getAllFiles hidden_js_tree = Inr [''a.py'']"
    and w3: "getAllFiles dangling_tree = Inl (SystemError ''ENOENT'')"
    by code_simp+
  have x1: "has_extension [''a.py'', ''b.py'', ''c.js''] js_extensions"
    and x2: "\<not> has_extension [''a.py''] js_extensions"
    and x3: "has_extension [''a.py''] [''.py'']"
    by code_simp+
  have d1: "detectLanguage py_majority_tree = Inr ''javascript''"
    using C4_priority_order [OF h1, of "[''a.py'', ''b.py'', ''c.js'']"] w1 x1 by simp
  have d2: "detectLanguage hidden_js_tree = Inr ''python''"
    using C4_priority_order [OF h2, of "[''a.py'']"] w2 x2 x3 by simp
  have d3: "detectLanguage dangling_tree = Inl (SystemError ''ENOENT'')"
    using C4_priority_order [OF h3, of _ "SystemError ''ENOENT''"] w3 by simp
  show ?thesis using h1 h2 h3 w1 w2 w3 d1 d2 d3 by blast
qed

text \<open>
  C4 as stated fails: a tree without marker files that holds two \<^verbatim>\<open>.py\<close> files and one
  \<^verbatim>\<open>.js\<close> file is not detected as python.
\<close>

theorem C4_majority_vote_counterexample:
  "set (map entry_name py_majority_tree) \<inter> set marker_files = {} \<and>
   getAllFiles py_majority_tree = Inr [''a.py'', ''b.py'', ''c.js''] \<and>
   count_ext [''a.py'', ''b.py'', ''c.js''] [''.py'']
     > count_ext [''a.py'', ''b.py'', ''c.js''] js_extensions \<and>
   detectLanguage py_majority_tree \<noteq> Inr ''python''"
  by code_simp

text \<open>
  C1, amended. For the manifest \<^verbatim>\<open>{"dependencies":{"lodash":"4.17.4"}}\<close> the dependency
  analyzer returns total 1, one outdated record for lodash (current 4.17.4, latest
  4.17.21) of severity low, since only the patch version differs, and one vulnerable
  record for lodash (Prototype Pollution (CVE-2019-10744)) of severity high.
\<close>

theorem C1_lodash_scenario_low:
  "analyzeDependencies lodash_repo ''javascript'' =
   Inr \<lparr> total = 1,
         outdated = [\<lparr> o_name = ''lodash'', o_current = ''4.17.4'', o_latest = Str ''4.17.21'',
                       o_severity = Low \<rparr>],
         vulnerable = [\<lparr> v_name = ''lodash'', v_version = ''4.17.4'',
                         v_vulnerability = Some ''Prototype Pollution (CVE-2019-10744)'',
                         v_severity = Some High \<rparr>] \<rparr>"
  by code_simp

text \<open>C1 as stated fails: the outdated record's severity is not high.\<close>

theorem C1_lodash_scenario_counterexample:
  "analyzeDependencies lodash_repo ''javascript'' \<noteq>
   Inr \<lparr> total = 1,
         outdated = [\<lparr> o_name = ''lodash'', o_current = ''4.17.4'', o_latest = Str ''4.17.21'',
                       o_severity = High \<rparr>],
         vulnerable = [\<lparr> v_name = ''lodash'', v_version = ''4.17.4'',
                         v_vulnerability = Some ''Prototype Pollution (CVE-2019-10744)'',
                         v_severity = Some High \<rparr>] \<rparr>"
  by code_simp

lemma obj_set_keys: "fst ` set (obj_set kvs k v) = insert k (fst ` set kvs)"
  by (induction kvs k v rule: obj_set.induct) auto

lemma obj_set_distinct: "distinct (map fst kvs) \<Longrightarrow> distinct (map fst (obj_set kvs k v))"
  by (induction kvs k v rule: obj_set.induct) (auto simp: obj_set_keys)

lemma assign_all_keys:
  "fst ` set (foldl (\<lambda>acc kv. obj_set acc (fst kv) (snd kv)) acc xs)
     = fst ` set acc \<union> fst ` set xs"
  by (induction xs arbitrary: acc) (auto simp: obj_set_keys)

lemma assign_all_distinct:
  "distinct (map fst acc) \<Longrightarrow>
   distinct (map fst (foldl (\<lambda>acc kv. obj_set acc (fst kv) (snd kv)) acc xs))"
  by (induction xs arbitrary: acc) (auto simp: obj_set_distinct)

lemma spread2_length:
  "length (spread2 a b) = card (fst ` set a \<union> fst ` set b)"
proof -
  have d: "distinct (map fst (spread2 a b))"
    unfolding spread2_def by (rule assign_all_distinct) simp
  have s: "set (map fst (spread2 a b)) = fst ` set a \<union> fst ` set b"
    unfolding spread2_def set_map assign_all_keys by auto
  have "length (spread2 a b) = length (map fst (spread2 a b))" by simp
  also have "\<dots> = card (set (map fst (spread2 a b)))"
    using d by (simp only: distinct_card)
  finally show ?thesis using s by simp
qed

lemma find_SomeD: "find P xs = Some x \<Longrightarrow> P x \<and> x \<in> set xs"
  by (induction xs) (auto split: if_splits)

lemma readFile_exists: "readFile tree n = Inr c \<Longrightarrow> pathExists tree n"
  by (auto simp: readFile_def pathExists_def split: option.splits entry.splits)

lemma readFile_listed: "readFile tree n = Inr c \<Longrightarrow> n \<in> set (map entry_name tree)"
  by (auto simp: readFile_def split: option.splits entry.splits dest!: find_SomeD)

lemma pathExists_listed: "pathExists tree n \<Longrightarrow> n \<in> set (map entry_name tree)"
  by (auto simp: pathExists_def split: option.splits entry.splits dest!: find_SomeD)

text \<open>
  C6, amended. For a JavaScript manifest, whenever the analyzer returns, total is the
  number of distinct names in the merged dependencies and devDependencies, whatever is
  classified outdated or vulnerable. For a requirements.txt, total is the number of
  lines that are neither blank nor comments: every such line counts, so a name declared
  on two lines counts twice.
\<close>

theorem C6_total_counts:
  "(pathExists (root r) ''package.json'' \<longrightarrow> packageJson r = Inr pj \<longrightarrow>
      analyzeDependencies r ''javascript'' = Inr d \<longrightarrow>
      total d = card (fst ` set (pj_dependencies pj) \<union> fst ` set (pj_devDependencies pj))) \<and>
   (readFile (root r) ''requirements.txt'' = Inr content \<longrightarrow>
      (\<exists>d'. analyzeDependencies r ''python'' = Inr d' \<and>
            total d' = length (requirement_lines content)))"
proof -
  have js: "total d = card (fst ` set (pj_dependencies pj) \<union> fst ` set (pj_devDependencies pj))"
    if "pathExists (root r) ''package.json''" "packageJson r = Inr pj"
       "analyzeDependencies r ''javascript'' = Inr d"
    using that
    by (auto simp: analyzeDependencies_def analyzeJavaScriptDependencies_def bind_sum_def Let_def
          spread2_length split: sum.splits)
  have py: "\<exists>d'. analyzeDependencies r ''python'' = Inr d' \<and>
            total d' = length (requirement_lines content)"
    if "readFile (root r) ''requirements.txt'' = Inr content"
    using that readFile_exists [OF that]
    by (simp add: analyzeDependencies_def analyzePythonDependencies_def bind_sum_def Let_def)
  show ?thesis using js py by blast
qed

theorem C6_total_counts_witness:
  "pathExists (root overlap_repo) ''package.json'' \<and>
   packageJson overlap_repo = Inr overlap_manifest \<and>
   analyzeDependencies overlap_repo ''javascript'' =
     Inr \<lparr> total = 3, outdated = [],
           vulnerable = [\<lparr> v_name = ''lodash'', v_version = ''4.17.21'',
                           v_vulnerability = Some ''Prototype Pollution (CVE-2019-10744)'',
                           v_severity = Some High \<rparr>] \<rparr> \<and>
   card (fst ` set (pj_dependencies overlap_manifest)
         \<union> fst ` set (pj_devDependencies overlap_manifest)) = 3 \<and>
   readFile (root duplicate_repo) ''requirements.txt'' = Inr duplicate_requirements \<and>
   (\<exists>d'. analyzeDependencies duplicate_repo ''python'' = Inr d' \<and> total d' = 2)"
proof -
  let ?d = "\<lparr> total = 3, outdated = [],
           vulnerable = [\<lparr> v_name = ''lodash'', v_version = ''4.17.21'',
                           v_vulnerability = Some ''Prototype Pollution (CVE-2019-10744)'',
                           v_severity = Some High \<rparr>] \<rparr>"
  have h1: "pathExists (root overlap_repo) ''package.json''" by code_simp
  have h2: "packageJson overlap_repo = Inr overlap_manifest" by (simp add: overlap_repo_def)
  have h3: "analyzeDependencies overlap_repo ''javascript'' = Inr ?d" by code_simp
  have h4: "readFile (root duplicate_repo) ''requirements.txt'' = Inr duplicate_requirements"
    by code_simp
  have n: "length (requirement_lines duplicate_requirements) = 2" by code_simp
  have js: "card (fst ` set (pj_dependencies overlap_manifest)
                  \<union> fst ` set (pj_devDependencies overlap_manifest)) = 3"
    using C6_total_counts [of overlap_repo overlap_manifest ?d duplicate_requirements] h1 h2 h3
    by simp
  have py: "\<exists>d'. analyzeDependencies duplicate_repo ''python'' = Inr d' \<and> total d' = 2"
    using C6_total_counts [of duplicate_repo overlap_manifest ?d duplicate_requirements] h4 n
    by simp
  show ?thesis using h1 h2 h3 h4 js py by blast
qed

text \<open>
  C6 as stated fails: a requirements.txt declaring django on two lines has total 2, with
  one distinct declared name.
\<close>

theorem C6_distinct_names_counterexample:
  "analyzeDependencies duplicate_repo ''python'' =
     Inr \<lparr> total = 2,
           outdated = [\<lparr> o_name = ''django'', o_current = ''1.0'', o_latest = Str ''4.2.5'',
                         o_severity = Medium \<rparr>,
                       \<lparr> o_name = ''django'', o_current = ''2.0'', o_latest = Str ''4.2.5'',
                         o_severity = Medium \<rparr>],
           vulnerable = [\<lparr> v_name = ''django'', v_version = ''1.0'',
                           v_vulnerability = Some ''SQL Injection (CVE-2023-36053)'',
                           v_severity = Some High \<rparr>,
                         \<lparr> v_name = ''django'', v_version = ''2.0'',
                           v_vulnerability = Some ''SQL Injection (CVE-2023-36053)'',
                           v_severity = Some High \<rparr>] \<rparr> \<and>
   py_declared_names duplicate_requirements = [''django'', ''django''] \<and>
   length (remdups (py_declared_names duplicate_requirements)) = 1"
  by code_simp

lemma py_check_all_skips:
  "py_check_all ls acc = py_check_all (filter (\<lambda>l. requirement_match l \<noteq> None) ls) acc"
  by (induction ls acc rule: py_check_all.induct) (auto simp: Let_def split: option.splits)

lemma python_dependencies_return:
  assumes "readFile (root r) ''requirements.txt'' = Inr content"
  shows "analyzeDependencies r ''python'' =
           Inr \<lparr> total = length (requirement_lines content),
                 outdated = fst (py_check_all (requirement_lines content) ([], [])),
                 vulnerable = snd (py_check_all (requirement_lines content) ([], [])) \<rparr>"
  using assms readFile_exists [OF assms]
  by (simp add: analyzeDependencies_def analyzePythonDependencies_def bind_sum_def Let_def)

lemma detect_python:
  assumes "''requirements.txt'' \<in> set (map entry_name tree)"
    and "''package.json'' \<notin> set (map entry_name tree)"
  shows "detectLanguage tree = Inr ''python''"
  using assms by (simp add: detectLanguage_def Let_def)

lemma detect_javascript:
  assumes "''package.json'' \<in> set (map entry_name tree)"
  shows "detectLanguage tree = Inr ''javascript''"
  using assms by (simp add: detectLanguage_def Let_def)

text \<open>
  C3, amended. Under python, every requirements.txt that can be read yields a
  DependencyAnalysis: a line that does not parse is skipped and adds nothing to the
  outdated and vulnerable lists. The orchestrator then returns a report with that
  analysis when the static analyzer returns and the clone directory can be removed; an
  error of the static analyzer's walk or reads, or of the removal, is thrown instead.
  Under javascript, a package.json that exists and cannot be read as JSON makes the
  dependency analyzer fail with the reader's error, and the orchestrator throws (that
  error, or the error of removing the clone directory in the catch block): no report is
  produced.
\<close>

theorem C3_manifest_errors:
  "(readFile (root r) ''requirements.txt'' = Inr content \<longrightarrow>
      (\<exists>d. analyzeDependencies r ''python'' = Inr d \<and>
           outdated d = fst (py_check_all (filter (\<lambda>l. requirement_match l \<noteq> None)
                                             (requirement_lines content)) ([], [])) \<and>
           vulnerable d = snd (py_check_all (filter (\<lambda>l. requirement_match l \<noteq> None)
                                               (requirement_lines content)) ([], [])) \<and>
           (''package.json'' \<notin> set (map entry_name (root r)) \<longrightarrow> ensureDir world = None \<longrightarrow>
            \<not> str_includes repoUrl ''demo'' \<longrightarrow> cloneRepository world repoUrl = Inr r \<longrightarrow>
              snd (analyzeRepository world repoUrl) =
                (case runStaticAnalysis (root r) ''python'' of
                   Inl e' \<Rightarrow> Inl (rethrown world True e')
                 | Inr sa \<Rightarrow>
                     (case removeClone world of
                        Some e' \<Rightarrow> Inl e'
                      | None \<Rightarrow>
                          Inr \<lparr> repository = \<lparr> r_name = extractRepoName repoUrl,
                                                r_url = repoUrl, r_language = ''python'' \<rparr>,
                                dependencies = d,
                                staticAnalysis = sa,
                                aiSummary = generateAISummary (llm world) d sa \<rparr>))))) \<and>
   (pathExists (root r) ''package.json'' \<longrightarrow> packageJson r = Inl e \<longrightarrow>
      analyzeDependencies r ''javascript'' = Inl e \<and>
      (ensureDir world = None \<longrightarrow> \<not> str_includes repoUrl ''demo'' \<longrightarrow>
       cloneRepository world repoUrl = Inr r \<longrightarrow>
         snd (analyzeRepository world repoUrl) = Inl (rethrown world True e)))"
proof -
  let ?d = "\<lparr> total = length (requirement_lines content),
              outdated = fst (py_check_all (requirement_lines content) ([], [])),
              vulnerable = snd (py_check_all (requirement_lines content) ([], [])) \<rparr>"
  have py: "analyzeDependencies r ''python'' = Inr ?d \<and>
           outdated ?d = fst (py_check_all (filter (\<lambda>l. requirement_match l \<noteq> None)
                                             (requirement_lines content)) ([], [])) \<and>
           vulnerable ?d = snd (py_check_all (filter (\<lambda>l. requirement_match l \<noteq> None)
                                               (requirement_lines content)) ([], []))"
    if rf: "readFile (root r) ''requirements.txt'' = Inr content"
    using python_dependencies_return [OF rf]
      py_check_all_skips [of "requirement_lines content" "([], [])"]
    by simp
  have run: "snd (analyzeRepository world repoUrl) =
                (case runStaticAnalysis (root r) ''python'' of
                   Inl e' \<Rightarrow> Inl (rethrown world True e')
                 | Inr sa \<Rightarrow>
                     (case removeClone world of
                        Some e' \<Rightarrow> Inl e'
                      | None \<Rightarrow>
                          Inr \<lparr> repository = \<lparr> r_name = extractRepoName repoUrl,
                                                r_url = repoUrl, r_language = ''python'' \<rparr>,
                                dependencies = ?d,
                                staticAnalysis = sa,
                                aiSummary = generateAISummary (llm world) ?d sa \<rparr>))"
    if rf: "readFile (root r) ''requirements.txt'' = Inr content"
      and np: "''package.json'' \<notin> set (map entry_name (root r))"
      and en: "ensureDir world = None"
      and nd: "\<not> str_includes repoUrl ''demo''"
      and cl: "cloneRepository world repoUrl = Inr r"
  proof -
    have lang: "detectLanguage (root r) = Inr ''python''"
      using detect_python [OF readFile_listed [OF rf] np] .
    have "repoUrl \<noteq> ''demo''"
      using nd by auto
    then show ?thesis
      using en nd cl lang python_dependencies_return [OF rf]
      by (simp add: analyzeRepository_def catch_block_def rethrown_def Let_def
            split: sum.splits option.splits)
  qed
  have js1: "analyzeDependencies r ''javascript'' = Inl e"
    if "pathExists (root r) ''package.json''" "packageJson r = Inl e"
    using that
    by (simp add: analyzeDependencies_def analyzeJavaScriptDependencies_def bind_sum_def)
  have js2: "snd (analyzeRepository world repoUrl) = Inl (rethrown world True e)"
    if pe: "pathExists (root r) ''package.json''" and pj: "packageJson r = Inl e"
      and en: "ensureDir world = None"
      and nd: "\<not> str_includes repoUrl ''demo''"
      and cl: "cloneRepository world repoUrl = Inr r"
  proof -
    have "repoUrl \<noteq> ''demo''"
      using nd by auto
    then show ?thesis
      using en nd cl detect_javascript [OF pathExists_listed [OF pe]] js1 [OF pe pj]
      by (simp add: analyzeRepository_def catch_block_def Let_def)
  qed
  have python: "\<exists>d. analyzeDependencies r ''python'' = Inr d \<and>
           outdated d = fst (py_check_all (filter (\<lambda>l. requirement_match l \<noteq> None)
                                             (requirement_lines content)) ([], [])) \<and>
           vulnerable d = snd (py_check_all (filter (\<lambda>l. requirement_match l \<noteq> None)
                                               (requirement_lines content)) ([], [])) \<and>
           (''package.json'' \<notin> set (map entry_name (root r)) \<longrightarrow> ensureDir world = None \<longrightarrow>
            \<not> str_includes repoUrl ''demo'' \<longrightarrow> cloneRepository world repoUrl = Inr r \<longrightarrow>
              snd (analyzeRepository world repoUrl) =
                (case runStaticAnalysis (root r) ''python'' of
                   Inl e' \<Rightarrow> Inl (rethrown world True e')
                 | Inr sa \<Rightarrow>
                     (case removeClone world of
                        Some e' \<Rightarrow> Inl e'
                      | None \<Rightarrow>
                          Inr \<lparr> repository = \<lparr> r_name = extractRepoName repoUrl,
                                                r_url = repoUrl, r_language = ''python'' \<rparr>,
                                dependencies = d,
                                staticAnalysis = sa,
                                aiSummary = generateAISummary (llm world) d sa \<rparr>)))"
    if rf: "readFile (root r) ''requirements.txt'' = Inr content"
  proof (rule exI [of _ ?d], intro conjI impI)
    show "analyzeDependencies r ''python'' = Inr ?d"
      using py [OF rf] by (rule conjunct1)
    show "outdated ?d = fst (py_check_all (filter (\<lambda>l. requirement_match l \<noteq> None)
                                             (requirement_lines content)) ([], []))"
      using py [OF rf] by (elim conjE)
    show "vulnerable ?d = snd (py_check_all (filter (\<lambda>l. requirement_match l \<noteq> None)
                                               (requirement_lines content)) ([], []))"
      using py [OF rf] by (elim conjE)
  next
    assume "''package.json'' \<notin> set (map entry_name (root r))" "ensureDir world = None"
      "\<not> str_includes repoUrl ''demo''" "cloneRepository world repoUrl = Inr r"
    then show "snd (analyzeRepository world repoUrl) =
                (case runStaticAnalysis (root r) ''python'' of
                   Inl e' \<Rightarrow> Inl (rethrown world True e')
                 | Inr sa \<Rightarrow>
                     (case removeClone world of
                        Some e' \<Rightarrow> Inl e'
                      | None \<Rightarrow>
                          Inr \<lparr> repository = \<lparr> r_name = extractRepoName repoUrl,
                                                r_url = repoUrl, r_language = ''python'' \<rparr>,
                                dependencies = ?d,
                                staticAnalysis = sa,
                                aiSummary = generateAISummary (llm world) ?d sa \<rparr>))"
      by (rule run [OF rf])
  qed
  have javascript: "analyzeDependencies r ''javascript'' = Inl e \<and>
      (ensureDir world = None \<longrightarrow> \<not> str_includes repoUrl ''demo'' \<longrightarrow>
       cloneRepository world repoUrl = Inr r \<longrightarrow>
         snd (analyzeRepository world repoUrl) = Inl (rethrown world True e))"
    if pe: "pathExists (root r) ''package.json''" and pj: "packageJson r = Inl e"
    using js1 [OF pe pj] js2 [OF pe pj] by blast
  show ?thesis
  proof (intro conjI impI)
    assume "readFile (root r) ''requirements.txt'' = Inr content"
    then show "\<exists>d. analyzeDependencies r ''python'' = Inr d \<and>
           outdated d = fst (py_check_all (filter (\<lambda>l. requirement_match l \<noteq> None)
                                             (requirement_lines content)) ([], [])) \<and>
           vulnerable d = snd (py_check_all (filter (\<lambda>l. requirement_match l \<noteq> None)
                                               (requirement_lines content)) ([], [])) \<and>
           (''package.json'' \<notin> set (map entry_name (root r)) \<longrightarrow> ensureDir world = None \<longrightarrow>
            \<not> str_includes repoUrl ''demo'' \<longrightarrow> cloneRepository world repoUrl = Inr r \<longrightarrow>
              snd (analyzeRepository world repoUrl) =
                (case runStaticAnalysis (root r) ''python'' of
                   Inl e' \<Rightarrow> Inl (rethrown world True e')
                 | Inr sa \<Rightarrow>
                     (case removeClone world of
                        Some e' \<Rightarrow> Inl e'
                      | None \<Rightarrow>
                          Inr \<lparr> repository = \<lparr> r_name = extractRepoName repoUrl,
                                                r_url = repoUrl, r_language = ''python'' \<rparr>,
                                dependencies = d,
                                staticAnalysis = sa,
                                aiSummary = generateAISummary (llm world) d sa \<rparr>)))"
      by (rule python)
  next
    assume "pathExists (root r) ''package.json''" "packageJson r = Inl e"
    then show "analyzeDependencies r ''javascript'' = Inl e"
      using javascript by blast
  next
    assume "pathExists (root r) ''package.json''" "packageJson r = Inl e"
      "ensureDir world = None" "\<not> str_includes repoUrl ''demo''"
      "cloneRepository world repoUrl = Inr r"
    then show "snd (analyzeRepository world repoUrl) = Inl (rethrown world True e)"
      using javascript by blast
  qed
qed

theorem C3_manifest_errors_witness:
  "readFile (root malformed_repo) ''requirements.txt'' = Inr malformed_requirements \<and>
   map requirement_match (requirement_lines malformed_requirements)
     = [Some (''flask'', Some ''=='', Some ''2.0.0''), None, Some (''requests'', None, None)] \<and>
   ''package.json'' \<notin> set (map entry_name (root malformed_repo)) \<and>
   \<not> str_includes ''https://github.com/acme/app'' ''demo'' \<and>
   (\<exists>d. analyzeDependencies malformed_repo ''python'' = Inr d) \<and>
   (\<exists>rep. snd (analyzeRepository (world_with malformed_repo) ''https://github.com/acme/app'')
            = Inr rep) \<and>
   readFile (root dangling_repo) ''requirements.txt'' = Inr malformed_requirements \<and>
   runStaticAnalysis (root dangling_repo) ''python'' = Inl (SystemError ''ENOENT'') \<and>
   snd (analyzeRepository (world_with dangling_repo) ''https://github.com/acme/app'')
     = Inl (SystemError ''ENOENT'') \<and>
   pathExists (root broken_manifest_repo) ''package.json'' \<and>
   analyzeDependencies broken_manifest_repo ''javascript''
     = Inl (SyntaxError ''Unexpected end of JSON input'') \<and>
   snd (analyzeRepository (world_with broken_manifest_repo) ''https://github.com/acme/app'')
     = Inl (SyntaxError ''Unexpected end of JSON input'')"
proof -
  let ?url = "''https://github.com/acme/app''"
  let ?err = "SyntaxError ''Unexpected end of JSON input''"
  have rf: "readFile (root malformed_repo) ''requirements.txt'' = Inr malformed_requirements"
    and rf': "readFile (root dangling_repo) ''requirements.txt'' = Inr malformed_requirements"
    by code_simp+
  have ms: "map requirement_match (requirement_lines malformed_requirements)
     = [Some (''flask'', Some ''=='', Some ''2.0.0''), None, Some (''requests'', None, None)]"
    by code_simp
  have np: "''package.json'' \<notin> set (map entry_name (root malformed_repo))"
    and np': "''package.json'' \<notin> set (map entry_name (root dangling_repo))"
    by code_simp+
  have nd: "\<not> str_includes ?url ''demo''"
    by code_simp
  have en: "ensureDir (world_with r) = None"
    and cl: "cloneRepository (world_with r) ?url = Inr r"
    and rm: "removeClone (world_with r) = None" for r
    by (simp_all add: world_with_def)
  have sa: "runStaticAnalysis (root malformed_repo) ''python''
              = Inr \<lparr> errors = [],
                      summary = \<lparr> totalFiles = 0, totalErrors = 0, totalWarnings = 0 \<rparr> \<rparr>"
    and sa': "runStaticAnalysis (root dangling_repo) ''python'' = Inl (SystemError ''ENOENT'')"
    by code_simp+
  have pe: "pathExists (root broken_manifest_repo) ''package.json''"
    by code_simp
  have pj: "packageJson broken_manifest_repo = Inl ?err"
    by (simp add: broken_manifest_repo_def)
  note py = C3_manifest_errors [of malformed_repo malformed_requirements
      "world_with malformed_repo" ?url ?err]
  note dg = C3_manifest_errors [of dangling_repo malformed_requirements
      "world_with dangling_repo" ?url ?err]
  note js = C3_manifest_errors [of broken_manifest_repo malformed_requirements
      "world_with broken_manifest_repo" ?url ?err]
  have a: "\<exists>d. analyzeDependencies malformed_repo ''python'' = Inr d"
    using py rf by blast
  have b: "\<exists>rep. snd (analyzeRepository (world_with malformed_repo) ?url) = Inr rep"
    using py rf np nd en [of malformed_repo] cl [of malformed_repo] rm [of malformed_repo] sa
    by auto
  have c: "snd (analyzeRepository (world_with dangling_repo) ?url) = Inl (SystemError ''ENOENT'')"
    using dg rf' np' nd en [of dangling_repo] cl [of dangling_repo] rm [of dangling_repo] sa'
    by (auto simp: rethrown_def)
  have d: "analyzeDependencies broken_manifest_repo ''javascript'' = Inl ?err"
    using js pe pj by blast
  have e: "snd (analyzeRepository (world_with broken_manifest_repo) ?url) = Inl ?err"
    using js pe pj nd en [of broken_manifest_repo] cl [of broken_manifest_repo]
      rm [of broken_manifest_repo]
    by (auto simp: rethrown_def)
  show ?thesis using rf ms np nd a b rf' sa' c pe d e by blast
qed

text \<open>
  C3 as stated fails: for a repository detected as javascript whose package.json is not
  valid JSON, the dependency analyzer throws and so does the orchestrator.
\<close>

theorem C3_unparseable_manifest_counterexample:
  "pathExists (root broken_manifest_repo) ''package.json'' \<and>
   detectLanguage (root broken_manifest_repo) = Inr ''javascript'' \<and>
   analyzeDependencies broken_manifest_repo ''javascript''
     = Inl (SyntaxError ''Unexpected end of JSON input'') \<and>
   snd (analyzeRepository (world_with broken_manifest_repo) ''https://github.com/acme/app'')
     = Inl (SyntaxError ''Unexpected end of JSON input'')"
  by code_simp

text \<open>
  C10, amended. For every repository reference that contains \<^verbatim>\<open>demo\<close> as a substring,
  analyzeRepository clones nothing and runs no analyzer: it first creates its temporary
  directory, and when that succeeds it returns the fixed demo report, whose repository
  name is vulnerable-todo-app and whose dependency total is 4, having made no other
  call. When the temporary directory cannot be created, it throws instead of returning
  the demo report.
\<close>

theorem C10_demo_short_circuit:
  assumes "str_includes repoUrl ''demo''"
  shows "list_all (\<lambda>ev. ev = EnsureDir \<or> ev = RemoveClone)
           (fst (analyzeRepository world repoUrl)) \<and>
         (ensureDir world = None \<longrightarrow>
            analyzeRepository world repoUrl = ([EnsureDir], Inr analyzeDemoRepository)) \<and>
         (ensureDir world = Some e \<longrightarrow>
            snd (analyzeRepository world repoUrl) = Inl (rethrown world (leftover world) e)) \<and>
         r_name (repository analyzeDemoRepository) = ''vulnerable-todo-app'' \<and>
         total (dependencies analyzeDemoRepository) = 4 \<and>
         extractRepoName repoUrl = ''demo-repo''"
  using assms
  by (simp add: analyzeRepository_def catch_block_def extractRepoName_def Let_def
        analyzeDemoRepository_def split: option.splits)

theorem C10_demo_short_circuit_witness:
  "str_includes ''https://github.com/acme/demo-app'' ''demo'' \<and>
   ensureDir (world_with lodash_repo) = None \<and>
   analyzeRepository (world_with lodash_repo) ''https://github.com/acme/demo-app''
     = ([EnsureDir], Inr analyzeDemoRepository) \<and>
   ensureDir unwritable_world = Some (SystemError ''EACCES'') \<and>
   snd (analyzeRepository unwritable_world ''https://github.com/acme/demo-app'')
     = Inl (SystemError ''EACCES'')"
proof -
  let ?url = "''https://github.com/acme/demo-app''"
  have h: "str_includes ?url ''demo''"
    by code_simp
  have e: "ensureDir (world_with lodash_repo) = None"
    by (simp add: world_with_def)
  have f: "ensureDir unwritable_world = Some (SystemError ''EACCES'')"
    and l: "leftover unwritable_world = False"
    by (simp_all add: unwritable_world_def)
  have a: "analyzeRepository (world_with lodash_repo) ?url = ([EnsureDir], Inr analyzeDemoRepository)"
    using C10_demo_short_circuit [OF h, of "world_with lodash_repo"] e by blast
  have b: "snd (analyzeRepository unwritable_world ?url) = Inl (SystemError ''EACCES'')"
    using C10_demo_short_circuit [OF h, of unwritable_world "SystemError ''EACCES''"] f l
    by (simp add: rethrown_def)
  show ?thesis using h e a f b by blast
qed

text \<open>
  C10 as stated fails: when the temporary directory cannot be created, the reference
  \<^verbatim>\<open>demo\<close> itself does not yield the demo report; the error is thrown.
\<close>

theorem C10_demo_report_counterexample:
  "str_includes ''demo'' ''demo'' \<and>
   analyzeRepository unwritable_world ''demo'' = ([EnsureDir], Inl (SystemError ''EACCES'')) \<and>
   snd (analyzeRepository unwritable_world ''demo'') \<noteq> Inr analyzeDemoRepository"
  by code_simp

end
